theory Spec2Isabelle
  imports Main "HOL-Library.Sublist"
begin

section \<open>JavaScript values and truthiness\<close>

text \<open>
  Request fields arrive as JSON or query-string values. The routes only test them for
  truthiness, compare them with \<open>===\<close>, or concatenate them into strings, so a small
  value type is enough. Numbers are integers (revision and request ids); \<open>JObj\<close>
  stands for any object or array (always truthy).
\<close>

datatype jsval = JUndefined | JNull | JBool bool | JNum int | JStr string | JObj

fun truthy :: "jsval \<Rightarrow> bool" where
  "truthy JUndefined = False"
| "truthy JNull = False"
| "truthy (JBool b) = b"
| "truthy (JNum n) = (n \<noteq> 0)"
| "truthy (JStr s) = (s \<noteq> [])"
| "truthy JObj = True"

text \<open>\<open>a || b\<close>: the first operand when it is truthy, the second otherwise.\<close>

definition js_or :: "jsval \<Rightarrow> jsval \<Rightarrow> jsval" where
  "js_or a b = (if truthy a then a else b)"

text \<open>A string-valued field that may be absent reads as \<open>undefined\<close>.\<close>

fun opt_str :: "string option \<Rightarrow> jsval" where
  "opt_str None = JUndefined"
| "opt_str (Some s) = JStr s"


section \<open>String conversions\<close>

text \<open>Decimal digits of a natural number, for \<open>String(n)\<close>.\<close>

definition digit_char :: "nat \<Rightarrow> char" where
  "digit_char n = ''0123456789'' ! n"

function dec :: "nat \<Rightarrow> string" where
  "dec n = (if n < 10 then [digit_char n] else dec (n div 10) @ [digit_char (n mod 10)])"
  by pat_completeness auto
termination
  by (relation "measure id") auto

declare dec.simps [simp del]

text \<open>
  \<open>String(v)\<close>, as used by string concatenation, by \<open>%s\<close> of \<open>util.format\<close> on primitive
  values and by \<open>Array.prototype.join\<close> on elements that are neither \<open>null\<close> nor
  \<open>undefined\<close>.
\<close>

fun to_string :: "jsval \<Rightarrow> string" where
  "to_string JUndefined = ''undefined''"
| "to_string JNull = ''null''"
| "to_string (JBool b) = (if b then ''true'' else ''false'')"
| "to_string (JNum n) = (if n < 0 then ''-'' @ dec (nat (- n)) else dec (nat n))"
| "to_string (JStr s) = s"
| "to_string JObj = ''[object Object]''"

text \<open>\<open>xs.join(sep)\<close>: \<open>null\<close> and \<open>undefined\<close> elements read as the empty string.\<close>

fun join_elem :: "jsval \<Rightarrow> string" where
  "join_elem JUndefined = []"
| "join_elem JNull = []"
| "join_elem v = to_string v"

fun join_strings :: "string \<Rightarrow> string list \<Rightarrow> string" where
  "join_strings sep [] = []"
| "join_strings sep [x] = x"
| "join_strings sep (x # y # ys) = x @ sep @ join_strings sep (y # ys)"

definition js_join :: "string \<Rightarrow> jsval list \<Rightarrow> string" where
  "js_join sep xs = join_strings sep (map join_elem xs)"

text \<open>\<open>obj[k] = v\<close> on an object kept as a list of its properties in insertion order.\<close>

fun set_prop :: "string \<Rightarrow> jsval \<Rightarrow> (string \<times> jsval) list \<Rightarrow> (string \<times> jsval) list" where
  "set_prop k v [] = [(k, v)]"
| "set_prop k v (p # ps) = (if fst p = k then (k, v) # ps else p # set_prop k v ps)"


section \<open>v2 middleware (routes.js, v2Middle)\<close>

text \<open>
  The parts of a v2 request body that the routes read: \<open>format\<close> (which, when present,
  overrides the path's format through \<open>Object.assign({ format: req.params.format }, req.body)\<close>),
  the flags \<open>body\<close> and \<open>subst\<close>, the inline \<open>wikitext\<close> and \<open>html\<close>, the revisions
  \<open>original\<close> and \<open>previous\<close>, and \<open>update\<close>. The payloads \<open>html.body\<close> and
  \<open>data-parsoid.body\<close> are opaque and carried as text.
\<close>

record revision =
  revid :: jsval
  title :: jsval
  rev_wikitext :: "string option"
  rev_html :: "string option"
  rev_data_parsoid :: "string option"

record update =
  upd_templates :: jsval
  upd_files :: jsval

text \<open>\<open>wikitext\<close> and \<open>html\<close> are accepted as a string or as an object \<open>{body, headers}\<close>.\<close>

datatype textfield = Absent | AsString string | AsObject "string option"

record v2body =
  b_format :: "string option"
  b_body :: jsval
  b_subst :: jsval
  b_wikitext :: textfield
  b_html :: textfield
  b_original :: "revision option"
  b_previous :: "revision option"
  b_update :: "update option"

record v2 =
  format :: string
  wikitext :: textfield
  html :: textfield
  original :: "revision option"
  previous :: "revision option"
  update :: "update option"

record v2request =
  rq_method :: string
  rq_domain :: string
  rq_format :: string
  rq_title :: "string option"
  rq_revision :: "string option"
  rq_query_body :: jsval
  rq_query_subst :: jsval
  rq_body :: v2body

text \<open>
  The values kept with \<open>res.local\<close>. \<open>timeoutId\<close> is set by the server before the
  routes run; the middleware sets the others.
\<close>

record locals =
  l_timeoutId :: jsval
  l_iwp :: string
  l_pageName :: jsval
  l_oldid :: jsval
  l_body :: bool
  l_subst :: bool
  l_v2 :: "v2 option"

text \<open>
  The middleware either answers itself through \<open>errOut\<close>, which is
  \<open>apiUtils.sendResponse(res, {}, err, code || 404)\<close>, or calls \<open>next()\<close>.
\<close>

datatype mw_outcome = ErrOut string nat | Next

definition wt2htmlFormats :: "string list" where
  "wt2htmlFormats = [''pagebundle'', ''html'']"

definition supportedFormats :: "string list" where
  "supportedFormats = [''pagebundle'', ''html'', ''wt'']"

definition errOut :: "string \<Rightarrow> nat option \<Rightarrow> mw_outcome" where
  "errOut err code = ErrOut err (case code of None \<Rightarrow> 404 | Some c \<Rightarrow> if c = 0 then 404 else c)"

text \<open>The locals of a request on which only the server's \<open>timeoutId\<close> has been set.\<close>

definition fresh_locals :: "jsval \<Rightarrow> locals" where
  "fresh_locals tid = \<lparr> l_timeoutId = tid, l_iwp = [], l_pageName = JUndefined,
      l_oldid = JUndefined, l_body = False, l_subst = False, l_v2 = None \<rparr>"

definition v2_of :: "v2request \<Rightarrow> v2" where
  "v2_of req =
     \<lparr> format = (case b_format (rq_body req) of Some f \<Rightarrow> f | None \<Rightarrow> rq_format req),
       wikitext = b_wikitext (rq_body req),
       html = b_html (rq_body req),
       original = b_original (rq_body req),
       previous = b_previous (rq_body req),
       update = b_update (rq_body req) \<rparr>"

definition v2Middle ::
  "(string \<rightharpoonup> string) \<Rightarrow> v2request \<Rightarrow> locals \<Rightarrow> locals \<times> mw_outcome" where
  "v2Middle reverseMwApiMap req l =
    (case reverseMwApiMap (rq_domain req) of
       None \<Rightarrow> (l, errOut ''Invalid domain.'' None)
     | Some iwp \<Rightarrow>
     if iwp = [] then (l, errOut ''Invalid domain.'' None)
     else
       let l1 = l \<lparr> l_iwp := iwp,
                  l_pageName := js_or (opt_str (rq_title req)) (JStr []),
                  l_oldid := js_or (opt_str (rq_revision req)) JNull,
                  l_body := truthy (js_or (rq_query_body req) (b_body (rq_body req))) \<rparr>;
           v = v2_of req
       in
       if format v \<notin> set supportedFormats \<or>
          (rq_method req = ''GET'' \<and> format v \<notin> set wt2htmlFormats)
       then (l1, errOut ''Invalid format.'' None)
       else
         let l2 = l1 \<lparr> l_subst := truthy (js_or (rq_query_subst req) (b_subst (rq_body req))) \<rparr> in
         if l_subst l2 \<and> format v \<noteq> ''html''
         then (l2, errOut ''Substitution is only supported for the HTML format.'' (Some 501))
         else
           let l3 = (if rq_method req = ''POST''
                     then (case original v of
                             None \<Rightarrow> l2
                           | Some orig \<Rightarrow>
                               (let la = (if truthy (revid orig) then l2 \<lparr> l_oldid := revid orig \<rparr> else l2)
                                in if truthy (title orig) then la \<lparr> l_pageName := title orig \<rparr> else la))
                     else l2)
           in (l3 \<lparr> l_v2 := Some v \<rparr>, Next))"


section \<open>Pre-substitution rewriting (routes.js, substTopLevelTemplates)\<close>

text \<open>
  The tokenizer (PegTokenizer) is an external collaborator. Its output is a sequence of
  tokens; a token is either a plain string or an object token that carries a \<open>name\<close>
  and a source range \<open>dataAttribs.tsr = [start, end]\<close> (offsets into the tokenized text).
  Only \<open>name\<close> and \<open>tsr[0]\<close> are read by the rewriter. Strings are sequences of code
  units, so JavaScript's \<open>s.substring(0, a)\<close> is \<open>take a s\<close> and \<open>s.substring(b)\<close> is
  \<open>drop b s\<close> (both clamp at the length of the string, as \<open>substring\<close> does).
\<close>

datatype token =
    StringTk string
  | TagTk (name: string) (tsr: "nat \<times> nat")

fun is_template :: "token \<Rightarrow> bool" where
  "is_template (StringTk s) = False"
| "is_template (TagTk n r) = (n = ''template'')"

text \<open>
  The loop of \<open>substTopLevelTemplates\<close>:
  \<^verbatim>\<open>
  var tsrIncr = 0;
  for (var i = 0; i < tokens.length; i++) {
    if (tokens[i].name === 'template') {
      var tsr = tokens[i].dataAttribs.tsr;
      wt = wt.substring(0, tsr[0] + tsrIncr) + '{{subst:' + wt.substring(tsr[0] + tsrIncr + 2);
      tsrIncr += 6;
    }
  }
  \<close>
\<close>

fun subst_loop :: "token list \<Rightarrow> nat \<Rightarrow> string \<Rightarrow> string" where
  "subst_loop [] tsrIncr wt = wt"
| "subst_loop (t # ts) tsrIncr wt =
     (if is_template t
      then subst_loop ts (tsrIncr + 6)
             (take (fst (tsr t) + tsrIncr) wt @ ''{{subst:'' @ drop (fst (tsr t) + tsrIncr + 2) wt)
      else subst_loop ts tsrIncr wt)"

definition rewrite_subst :: "(string \<Rightarrow> token list) \<Rightarrow> string \<Rightarrow> string" where
  "rewrite_subst tk wt = subst_loop (tk wt) 0 wt"

text \<open>
  The specification's reading of the rewrite: edits are insertions of the marker
  \<open>subst:\<close> at original offsets (two code units past the start of each top-level
  template), applied in one pass over the original text. \<open>insert_markers ss base w\<close>
  inserts at the original offsets \<open>ss\<close>, where \<open>w\<close> is the original text from offset
  \<open>base\<close> on.
\<close>

fun template_starts :: "token list \<Rightarrow> nat list" where
  "template_starts [] = []"
| "template_starts (t # ts) =
     (if is_template t then fst (tsr t) # template_starts ts else template_starts ts)"

fun insert_markers :: "nat list \<Rightarrow> nat \<Rightarrow> string \<Rightarrow> string" where
  "insert_markers [] base w = w"
| "insert_markers (s # ss) base w =
     take (s + 2 - base) w @ ''subst:'' @ insert_markers ss (s + 2) (drop (s + 2 - base) w)"


section \<open>The environment and the external operations\<close>

text \<open>
  A DOM document is kept symbolically: the HTML text it was parsed from
  (\<open>DU.parseHTML\<close>) and the data-parsoid payload applied to it, if any
  (\<open>DU.applyDataParsoid\<close>). \<open>doc.body\<close> is passed around as the document itself.
\<close>

datatype doc = Doc (doc_html: string) (doc_dp: "string option")

definition parseHTML :: "string \<Rightarrow> doc" where
  "parseHTML h = Doc h None"

definition applyDataParsoid :: "doc \<Rightarrow> string \<Rightarrow> doc" where
  "applyDataParsoid d dp = Doc (doc_html d) (Some dp)"

text \<open>
  The expansion set that \<open>DU.extractExpansions\<close> returns: per kind, a mapping from
  expansion key to fragment, kept as a list of entries (\<open>{}\<close> is the empty list).
  \<open>routes.js\<close> reads and writes the kinds \<open>transclusions\<close> and \<open>files\<close> only.
\<close>

record expansions =
  transclusions :: "(string \<times> string) list"
  files :: "(string \<times> string) list"

record pagemeta =
  meta_title :: string
  revision_revid :: jsval
  revision_parentid :: jsval

text \<open>The fields of the parser environment that the routes read or write.\<close>

record env =
  page_name :: string
  page_id :: jsval
  page_src :: string
  page_dom :: "doc option"
  page_meta :: pagemeta
  discardDataParsoid :: bool

text \<open>\<open>env.setPageSrcInfo(src)\<close> with a string argument.\<close>

definition setPageSrcInfo :: "env \<Rightarrow> string \<Rightarrow> env" where
  "setPageSrcInfo e src = e \<lparr> page_src := src \<rparr>"

subsection \<open>Errors and asynchronous results\<close>

datatype errclass = TimeoutError | TypeError | SyntaxError | Error

record jserror =
  cls :: errclass
  message :: string
  stack :: "string option"

text \<open>
  An external asynchronous operation either settles, some milliseconds after it was
  started, with a value or an error, or never settles.
\<close>

datatype 'a settle = Fulfilled 'a | Rejected jserror

datatype 'a async = Settles nat "'a settle" | Hangs

text \<open>
  The external collaborators, as functions of the arguments the routes pass:
  the tokenizer, the title resolver of the environment, the DOM utilities, the node
  library functions used to build the redirect, and the asynchronous operations
  (page source fetch, preprocessor, parse pipeline, rendering cache, serializer).
\<close>

record world =
  tokenize :: "string \<Rightarrow> token list"
  resolveTitle :: "string \<Rightarrow> string"
  extractExpansions :: "doc \<Rightarrow> expansions"
  serializeNode :: "doc \<Rightarrow> bool \<Rightarrow> string"
  extractDpAndSerialize :: "doc \<Rightarrow> bool \<Rightarrow> string \<times> string \<times> string"
  encodeURIComponent :: "string \<Rightarrow> string"
  qs_stringify :: "(string \<times> jsval) list \<Rightarrow> string"
  url_host :: "string \<Rightarrow> jsval"
  fetchPageSrcInfo :: "string \<Rightarrow> jsval \<Rightarrow> (string \<times> pagemeta) async"
  phpParse :: "string \<Rightarrow> string \<Rightarrow> string async"
  pipelineParse :: "env \<Rightarrow> string \<Rightarrow> expansions option \<Rightarrow> doc async"
  cacheRequest :: "string \<Rightarrow> jsval \<Rightarrow> string async"
  serializeDOM :: "env \<Rightarrow> doc \<Rightarrow> bool \<Rightarrow> string async"

text \<open>The service configuration and the process, as far as the routes read them.\<close>

record config =
  REQ_TIMEOUT :: nat
  CPU_TIMEOUT :: nat
  useSelser :: bool
  allowCORS :: "string option"
  parsoidCacheURI :: "string option"
  mwApiMap :: "string \<rightharpoonup> string"

record process =
  isMaster :: bool
  version :: string
  timeout_stack :: string

text \<open>
  The request as the handlers read it: the query object (its properties in order), the
  cookie header, and the two headers of the rendering cache protocol.
  \<open>JSON.parse(req.headers['x-parsoid'] || '{}')\<close> gives an object with the fields
  \<open>cacheID\<close> and \<open>mode\<close> (possibly undefined), or throws.
\<close>

datatype xparsoid = XInvalid | XHeader (cacheID: jsval) (mode: jsval)

record request =
  query :: "(string \<times> jsval) list"
  cookie :: jsval
  x_parsoid_request :: jsval
  x_parsoid :: xparsoid


section \<open>Effects and promises\<close>

text \<open>
  What a request handler does is recorded as a sequence of events: calls to the response
  layer (\<open>apiUtils\<close>), fatal log entries, messages to the cluster master, and invocations
  of the external asynchronous operations with their arguments. Metrics sent to the
  performance timer and \<open>info\<close> log lines carry wall-clock readings and are left out.
\<close>

record message =
  m_type :: string
  m_timeout :: "nat option"
  m_done :: "bool option"
  m_timeoutId :: jsval
  m_location :: "string option"

datatype payload =
    WikitextPayload string string
  | PageBundlePayload string string string string

datatype extcall =
    CallSetPageSrcInfo string jsval
  | CallPHPParse string string bool
  | CallPipelineParse env string "expansions option"
  | CallParsoidCache string jsval
  | CallSerializeDOM env doc bool

datatype event =
    SetHeader string jsval
  | EndResponse string
  | JsonResponse payload
  | RelativeRedirect string
  | LogFatal jserror
  | ProcessSend message
  | Call extcall

text \<open>
  A promise, seen from the end of the request: the events its chain of handlers has
  performed until it settles, each with the time (in ms since the handler was entered),
  how and when it settles (\<open>None\<close>: never), and under \<open>late\<close> the events that
  operations abandoned by a soft timeout still perform after the deadline.
\<close>

record 'a promise =
  evs :: "(nat \<times> event) list"
  late :: "(nat \<times> event) list"
  out :: "(nat \<times> 'a settle) option"

definition resolved :: "nat \<Rightarrow> 'a \<Rightarrow> 'a promise" where
  "resolved t v = \<lparr> evs = [], late = [], out = Some (t, Fulfilled v) \<rparr>"

definition rejected :: "nat \<Rightarrow> jserror \<Rightarrow> 'a promise" where
  "rejected t e = \<lparr> evs = [], late = [], out = Some (t, Rejected e) \<rparr>"

text \<open>The promise of an external operation started at time \<open>t\<close>.\<close>

definition started :: "nat \<Rightarrow> 'a async \<Rightarrow> 'a promise" where
  "started t a = \<lparr> evs = [], late = [],
     out = (case a of Settles d r \<Rightarrow> Some (t + d, r) | Hangs \<Rightarrow> None) \<rparr>"

text \<open>A handler that performs \<open>es\<close> at time \<open>t\<close> and then returns the promise \<open>p\<close>.\<close>

definition doing :: "nat \<Rightarrow> event list \<Rightarrow> 'a promise \<Rightarrow> 'a promise" where
  "doing t es p = p \<lparr> evs := map (Pair t) es @ evs p \<rparr>"

text \<open>\<open>p.then(h)\<close>: \<open>h\<close> runs when \<open>p\<close> is fulfilled; a rejection passes through.\<close>

definition then_p :: "'a promise \<Rightarrow> (nat \<Rightarrow> 'a \<Rightarrow> 'b promise) \<Rightarrow> 'b promise" where
  "then_p p h =
     (case out p of
        None \<Rightarrow> \<lparr> evs = evs p, late = late p, out = None \<rparr>
      | Some (t, Rejected e) \<Rightarrow> \<lparr> evs = evs p, late = late p, out = Some (t, Rejected e) \<rparr>
      | Some (t, Fulfilled v) \<Rightarrow>
          (let q = h t v in \<lparr> evs = evs p @ evs q, late = late p @ late q, out = out q \<rparr>))"

text \<open>\<open>p.then(ok, err)\<close> with an error handler.\<close>

definition then2_p ::
  "'a promise \<Rightarrow> (nat \<Rightarrow> 'a \<Rightarrow> 'b promise) \<Rightarrow> (nat \<Rightarrow> jserror \<Rightarrow> 'b promise) \<Rightarrow> 'b promise" where
  "then2_p p h g =
     (case out p of
        None \<Rightarrow> \<lparr> evs = evs p, late = late p, out = None \<rparr>
      | Some (t, r) \<Rightarrow>
          (let q = (case r of Fulfilled v \<Rightarrow> h t v | Rejected e \<Rightarrow> g t e)
           in \<lparr> evs = evs p @ evs q, late = late p @ late q, out = out q \<rparr>))"

text \<open>\<open>p.catch(g)\<close>: \<open>g\<close> runs when \<open>p\<close> is rejected; a value passes through.\<close>

definition catch_p :: "'a promise \<Rightarrow> (nat \<Rightarrow> jserror \<Rightarrow> 'a promise) \<Rightarrow> 'a promise" where
  "catch_p p g = then2_p p (\<lambda>t v. resolved t v) g"

text \<open>
  \<open>p.timeout(ms)\<close>, called while the chain is built (time 0): when \<open>p\<close> has not settled
  by \<open>ms\<close>, the result is rejected at \<open>ms\<close> with the library's \<open>TimeoutError\<close>
  (message "operation timed out", with the stack the library captured); whatever the
  chain of \<open>p\<close> does after \<open>ms\<close> is no longer part of the result.
\<close>

definition bluebird_timeout :: "string \<Rightarrow> jserror" where
  "bluebird_timeout st = \<lparr> cls = TimeoutError, message = ''operation timed out'', stack = Some st \<rparr>"

definition expired :: "nat \<Rightarrow> string \<Rightarrow> 'a promise \<Rightarrow> 'a promise" where
  "expired ms st p =
     \<lparr> evs = filter (\<lambda>e. fst e \<le> ms) (evs p),
       late = late p @ filter (\<lambda>e. ms < fst e) (evs p),
       out = Some (ms, Rejected (bluebird_timeout st)) \<rparr>"

definition timeout_p :: "nat \<Rightarrow> string \<Rightarrow> 'a promise \<Rightarrow> 'a promise" where
  "timeout_p ms st p =
     (case out p of
        None \<Rightarrow> expired ms st p
      | Some (t, r) \<Rightarrow> if t \<le> ms then p else expired ms st p)"

text \<open>The events of a promise in the order they happen.\<close>

definition events_of :: "'a promise \<Rightarrow> event list" where
  "events_of p = map snd (evs p) @ map snd (late p)"

section \<open>Timeouts (routes.js, timeoutResp, makeDone, cpuTimeout)\<close>

text \<open>
  \<^verbatim>\<open>
  function timeoutResp( env, err ) {
    if ( err instanceof Promise.TimeoutError ) {
      err = new Error("Request timed out.");
      err.stack = null;
    }
    env.log("fatal/request", err);
  }
  \<close>
\<close>

definition timeoutResp :: "jserror \<Rightarrow> event list" where
  "timeoutResp err =
     (let err' = (if cls err = TimeoutError
                  then \<lparr> cls = Error, message = ''Request timed out.'', stack = None \<rparr>
                  else err)
      in [LogFatal err'])"

definition makeDone :: "jsval \<Rightarrow> message" where
  "makeDone timeoutId =
     \<lparr> m_type = ''timeout'', m_timeout = None, m_done = Some True,
       m_timeoutId = timeoutId, m_location = None \<rparr>"

text \<open>\<open>!/^v0\.[0-8]\./.test( process.version )\<close>\<close>

fun old_node_version :: "string \<Rightarrow> bool" where
  "old_node_version (a # b # c # d # e # rest) =
     (a = CHR ''v'' \<and> b = CHR ''0'' \<and> c = CHR ''.'' \<and> d \<in> set ''012345678'' \<and> e = CHR ''.'')"
| "old_node_version s = False"

definition sufficientNodeVersion :: "process \<Rightarrow> bool" where
  "sufficientNodeVersion pr = (\<not> old_node_version (version pr))"

definition location_of :: "locals \<Rightarrow> string" where
  "location_of l =
     ''['' @ l_iwp l @ ''/'' @ to_string (l_pageName l) @
     (if truthy (l_oldid l) then ''?oldid='' @ to_string (l_oldid l) else []) @ '']''"

definition start_message :: "config \<Rightarrow> locals \<Rightarrow> message" where
  "start_message conf l =
     \<lparr> m_type = ''timeout'', m_timeout = Some (CPU_TIMEOUT conf), m_done = None,
       m_timeoutId = l_timeoutId l, m_location = Some (location_of l) \<rparr>"

text \<open>
  \<open>cpuTimeout(p, res)\<close>. On the cluster master, or on an old node version, the result
  follows \<open>p\<close> and nothing is sent. Otherwise the start message is sent at once, and
  \<open>p.then(done, done)\<close> sends the done message when \<open>p\<close> settles, before the handlers of
  the returned promise run.
\<close>

definition cpuTimeout :: "config \<Rightarrow> process \<Rightarrow> 'a promise \<Rightarrow> locals \<Rightarrow> 'a promise" where
  "cpuTimeout conf pr p l =
     (if isMaster pr \<or> \<not> sufficientNodeVersion pr then p
      else p \<lparr> evs := (0, ProcessSend (start_message conf l)) # evs p @
                  (case out p of
                     None \<Rightarrow> []
                   | Some (t, r) \<Rightarrow> [(t, ProcessSend (makeDone (l_timeoutId l)))]) \<rparr>)"

text \<open>\<open>cpuTimeout(p, res).catch(timeoutResp.bind(null, env))\<close>\<close>

definition supervised :: "config \<Rightarrow> process \<Rightarrow> unit promise \<Rightarrow> locals \<Rightarrow> unit promise" where
  "supervised conf pr p l =
     catch_p (cpuTimeout conf pr p l) (\<lambda>t err. doing t (timeoutResp err) (resolved t ()))"


section \<open>Reuse of expansions (routes.js, parse)\<close>

text \<open>
  \<open>ret\<close> is the object \<open>{ expansions: ..., mode: ... }\<close> that the first stage of \<open>parse\<close>
  resolves to; \<open>mode\<close> is \<open>undefined\<close> when it was not set. Errors thrown by the engine
  are given a representative message.
\<close>

record ret =
  r_expansions :: expansions
  r_mode :: jsval

definition type_error :: "string \<Rightarrow> jserror" where
  "type_error m = \<lparr> cls = TypeError, message = m, stack = Some (''TypeError: '' @ m) \<rparr>"

definition syntax_error :: "string \<Rightarrow> jserror" where
  "syntax_error m = \<lparr> cls = SyntaxError, message = m, stack = Some (''SyntaxError: '' @ m) \<rparr>"

text \<open>
  \<^verbatim>\<open>
  if ( v2.update ) {
    ["templates", "files"].some(function(m) {
      if ( v2.update[m] ) { ret.mode = m; return true; }
    });
  }
  \<close>
\<close>

definition update_mode :: "update option \<Rightarrow> jsval" where
  "update_mode u =
     (case u of
        None \<Rightarrow> JUndefined
      | Some up \<Rightarrow>
          if truthy (upd_templates up) then JStr ''templates''
          else if truthy (upd_files up) then JStr ''files''
          else JUndefined)"

text \<open>
  Lines 151-167: the expansions of an explicit \<open>previous\<close> or \<open>original\<close> revision.
  Reading \<open>.body\<close> of a missing \<open>html\<close> or \<open>data-parsoid\<close> throws.
\<close>

definition revision_ret :: "world \<Rightarrow> v2 \<Rightarrow> revision \<Rightarrow> jserror + ret" where
  "revision_ret w v rv =
     (case rev_html rv of
        None \<Rightarrow> Inl (type_error ''Cannot read property body of undefined'')
      | Some h \<Rightarrow>
          (case rev_data_parsoid rv of
             None \<Rightarrow> Inl (type_error ''Cannot read property body of undefined'')
           | Some dp \<Rightarrow>
               Inr \<lparr> r_expansions = extractExpansions w (applyDataParsoid (parseHTML h) dp),
                     r_mode = update_mode (update v) \<rparr>))"

text \<open>
  Lines 170-191: the lookup in the rendering cache. A failed request resolves to \<open>null\<close>.
\<close>

definition cache_ret :: "world \<Rightarrow> request \<Rightarrow> pagemeta \<Rightarrow> nat \<Rightarrow> ret option promise" where
  "cache_ret w req meta t =
     (case x_parsoid req of
        XInvalid \<Rightarrow> rejected t (syntax_error ''Unexpected token'')
      | XHeader cid md \<Rightarrow>
          (let cacheID' = js_or cid (revision_parentid meta) in
           doing t [Call (CallParsoidCache (meta_title meta) cacheID')]
             (then2_p (started t (cacheRequest w (meta_title meta) cacheID'))
                (\<lambda>t' src. resolved t'
                   (Some \<lparr> r_expansions = extractExpansions w (parseHTML src),
                           r_mode = (if truthy cid then md else JUndefined) \<rparr>))
                (\<lambda>t' err. resolved t' None))))"

text \<open>
  \<^verbatim>\<open>
  switch ( ret.mode ) {
  case "templates": ret.expansions.transclusions = {}; break;
  case "files":     ret.expansions.files = {};         break;
  }
  \<close>
\<close>

definition reuse :: "ret \<Rightarrow> ret" where
  "reuse r =
     (if r_mode r = JStr ''templates''
      then r \<lparr> r_expansions := (r_expansions r) \<lparr> transclusions := [] \<rparr> \<rparr>
      else if r_mode r = JStr ''files''
      then r \<lparr> r_expansions := (r_expansions r) \<lparr> files := [] \<rparr> \<rparr>
      else r)"

text \<open>\<open>v2.previous || v2.original\<close>\<close>

definition prior_revision :: "v2 \<Rightarrow> revision option" where
  "prior_revision v = (case previous v of Some rv \<Rightarrow> Some rv | None \<Rightarrow> original v)"

text \<open>
  The second branch (line 169): the cache is consulted when it is configured and the
  request is not itself a request of the cache; otherwise nothing is reused.
\<close>

definition cache_stage :: "world \<Rightarrow> config \<Rightarrow> request \<Rightarrow> nat \<Rightarrow> env \<Rightarrow> ret option promise" where
  "cache_stage w conf req t e =
     (if truthy (opt_str (parsoidCacheURI conf)) \<and> \<not> truthy (x_parsoid_request req)
      then cache_ret w req (page_meta e) t
      else resolved t None)"

text \<open>
  \<open>parse(env, req, res)\<close>, called at time \<open>t\<close>. The last stage passes
  \<open>ret && ret.expansions\<close> to \<open>env.pipelineFactory.parse\<close>.
\<close>

definition parse :: "world \<Rightarrow> config \<Rightarrow> request \<Rightarrow> locals \<Rightarrow> nat \<Rightarrow> env \<Rightarrow> doc promise" where
  "parse w conf req l t e =
     (let p = (case l_v2 l of
                 None \<Rightarrow> cache_stage w conf req t e
               | Some v \<Rightarrow>
                   (case prior_revision v of
                      None \<Rightarrow> cache_stage w conf req t e
                    | Some rv \<Rightarrow>
                        (case revision_ret w v rv of
                           Inl err \<Rightarrow> rejected t err
                         | Inr r \<Rightarrow> resolved t (Some r))))
      in then_p p (\<lambda>t' r.
           let exps = (case r of None \<Rightarrow> None | Some r' \<Rightarrow> Some (r_expansions (reuse r')))
           in doing t' [Call (CallPipelineParse e (page_src e) exps)]
                (started t' (pipelineParse w e (page_src e) exps))))"


section \<open>Serialization (routes.js, html2wt)\<close>

definition cors_header :: "config \<Rightarrow> event list" where
  "cors_header conf =
     (case allowCORS conf of
        None \<Rightarrow> []
      | Some origin \<Rightarrow>
          if origin = [] then [] else [SetHeader ''Access-Control-Allow-Origin'' (JStr origin)])"

definition wikitext_content_type :: string where
  "wikitext_content_type = ''text/plain;profile=mediawiki.org/specs/wikitext/1.0.0;charset=utf-8''"

text \<open>
  \<^verbatim>\<open>
  var hasOldId = (env.page.id && env.page.id !== '0');
  var useSelser = hasOldId && parsoidConfig.useSelser;
  \<close>
\<close>

definition hasOldId :: "env \<Rightarrow> bool" where
  "hasOldId e = (truthy (page_id e) \<and> page_id e \<noteq> JStr ''0'')"

definition selser_flag :: "config \<Rightarrow> env \<Rightarrow> bool" where
  "selser_flag conf e = (hasOldId e \<and> useSelser conf)"

text \<open>The environment and the document that \<open>html2wt\<close> hands to the serializer.\<close>

definition html2wt_env :: "locals \<Rightarrow> env \<Rightarrow> env" where
  "html2wt_env l e0 =
     (let e1 = e0 \<lparr> page_id := l_oldid l \<rparr>;
          orig = (case l_v2 l of None \<Rightarrow> None | Some v \<Rightarrow> original v);
          e2 = (case orig of
                  None \<Rightarrow> e1
                | Some rv \<Rightarrow> (case rev_wikitext rv of
                                None \<Rightarrow> e1
                              | Some src \<Rightarrow> setPageSrcInfo e1 src))
      in case orig of
           None \<Rightarrow> e2
         | Some rv \<Rightarrow>
             (case rev_html rv of
                None \<Rightarrow> e2
              | Some h \<Rightarrow>
                  e2 \<lparr> page_dom := Some (case rev_data_parsoid rv of
                                           None \<Rightarrow> parseHTML h
                                         | Some dp \<Rightarrow> applyDataParsoid (parseHTML h) dp) \<rparr>))"

definition html2wt_doc :: "locals \<Rightarrow> string \<Rightarrow> doc" where
  "html2wt_doc l h =
     (case l_v2 l of
        None \<Rightarrow> parseHTML h
      | Some v \<Rightarrow>
          (case original v of
             None \<Rightarrow> parseHTML h
           | Some rv \<Rightarrow>
               (case rev_data_parsoid rv of
                  None \<Rightarrow> parseHTML h
                | Some dp \<Rightarrow> applyDataParsoid (parseHTML h) dp)))"

text \<open>The handler that sends the serializer's output, and the calls it makes.\<close>

definition wikitext_response :: "locals \<Rightarrow> string \<Rightarrow> event list" where
  "wikitext_response l output =
     (case l_v2 l of
        Some v \<Rightarrow> [JsonResponse (WikitextPayload wikitext_content_type output)]
      | None \<Rightarrow> [SetHeader ''content-type'' (JStr wikitext_content_type), EndResponse output])"

definition send_wikitext :: "locals \<Rightarrow> nat \<Rightarrow> string \<Rightarrow> unit promise" where
  "send_wikitext l t output = doing t (wikitext_response l output) (resolved t ())"

text \<open>
  \<open>html2wt(req, res, html)\<close>: the events of the request. The serializer is started
  before \<open>cpuTimeout\<close> is called, so its invocation precedes the start message.
\<close>

definition html2wt :: "world \<Rightarrow> config \<Rightarrow> process \<Rightarrow> locals \<Rightarrow> env \<Rightarrow> string \<Rightarrow> event list" where
  "html2wt w conf pr l e0 h =
     (let e = html2wt_env l e0;
          d = html2wt_doc l h;
          sel = selser_flag conf e;
          p = then_p (timeout_p (REQ_TIMEOUT conf) (timeout_stack pr)
                        (started 0 (serializeDOM w e d sel)))
                     (send_wikitext l)
      in cors_header conf @ [Call (CallSerializeDOM e d sel)] @
         events_of (supervised conf pr p l))"

text \<open>The flag of a call to the serializer.\<close>

fun serializer_flag :: "event \<Rightarrow> bool option" where
  "serializer_flag (Call (CallSerializeDOM e d b)) = Some b"
| "serializer_flag ev = None"


text \<open>
  An operation started with the request exceeds the soft deadline \<open>ms\<close> when it has not
  settled \<open>ms\<close> milliseconds later.
\<close>

definition overdue :: "nat \<Rightarrow> 'a async \<Rightarrow> bool" where
  "overdue ms a = (case a of Hangs \<Rightarrow> True | Settles d r \<Rightarrow> ms < d)"

text \<open>Whether a request runs under the supervision of the cluster master.\<close>

definition worker :: "process \<Rightarrow> bool" where
  "worker pr = (\<not> (isMaster pr \<or> \<not> sufficientNodeVersion pr))"

text \<open>The error that \<open>timeoutResp\<close> reports in place of a \<open>TimeoutError\<close>.\<close>

definition request_timed_out :: jserror where
  "request_timed_out = \<lparr> cls = Error, message = ''Request timed out.'', stack = None \<rparr>"


section \<open>Parsing (routes.js, wt2html)\<close>

definition html_content_type :: string where
  "html_content_type = ''text/html;profile=mediawiki.org/specs/html/1.0.0;charset=utf-8''"

definition no_cache :: event where
  "no_cache = SetHeader ''Cache-Control'' (JStr ''private,no-cache,s-maxage=0'')"

text \<open>\<open>sendRes(doc)\<close>\<close>

definition sendRes :: "world \<Rightarrow> locals \<Rightarrow> nat \<Rightarrow> doc \<Rightarrow> unit promise" where
  "sendRes w l t d =
     doing t
       (if (case l_v2 l of None \<Rightarrow> False | Some v \<Rightarrow> format v = ''pagebundle'')
        then (case extractDpAndSerialize w d (l_body l) of
                (str, type, dp) \<Rightarrow>
                  [JsonResponse (PageBundlePayload html_content_type str type dp)])
        else [SetHeader ''content-type'' (JStr html_content_type),
              EndResponse (serializeNode w d (l_body l))])
       (resolved t ())"

text \<open>
  \<open>parseWt()\<close>: the state handed on by the chain is the environment and the current
  value of the variable \<open>wt\<close>.
\<close>

definition parseWt :: "world \<Rightarrow> locals \<Rightarrow> nat \<Rightarrow> env \<times> string \<Rightarrow> doc promise" where
  "parseWt w l t s =
     (let e1 = setPageSrcInfo (fst s) (snd s);
          e2 = (if \<not> truthy (l_pageName l) then e1 \<lparr> page_name := [] \<rparr> else e1)
      in doing t [no_cache, Call (CallPipelineParse e2 (snd s) None)]
           (started t (pipelineParse w e2 (snd s) None)))"

text \<open>\<open>parsePageWithOldid()\<close>\<close>

definition parsePageWithOldid ::
  "world \<Rightarrow> config \<Rightarrow> request \<Rightarrow> locals \<Rightarrow> nat \<Rightarrow> env \<Rightarrow> doc promise" where
  "parsePageWithOldid w conf req l t e =
     then_p (parse w conf req l t e)
       (\<lambda>t' d. doing t'
          [if truthy (cookie req) \<or> l_v2 l \<noteq> None
           then no_cache
           else SetHeader ''Cache-Control'' (JStr ''s-maxage=2592000''),
           SetHeader ''content-revision-id'' (l_oldid l)]
          (resolved t' d))"

text \<open>
  \<open>redirectToOldid()\<close>. For a v2 request the host of the wiki's API is looked up with
  \<open>env.conf.parsoid.mwApiMap.get(prefix).uri\<close>, which throws when the prefix is not in
  the map; for a v1 request \<open>req.query.oldid\<close> is set before the query is encoded.
\<close>

definition redirect_path :: "world \<Rightarrow> config \<Rightarrow> request \<Rightarrow> locals \<Rightarrow> string \<Rightarrow> jsval \<Rightarrow> jserror + string" where
  "redirect_path w conf req l target oldid =
     (case l_v2 l of
        Some v \<Rightarrow>
          (case mwApiMap conf (l_iwp l) of
             None \<Rightarrow> Inl (type_error ''Cannot read property uri of undefined'')
           | Some uri \<Rightarrow>
               (let path = ''/'' @ js_join ''/''
                             [JStr ''v2'', url_host w uri, JStr (format v),
                              JStr (encodeURIComponent w target), oldid]
                in Inr (if query req \<noteq> [] then path @ ''?'' @ qs_stringify w (query req)
                        else path)))
      | None \<Rightarrow>
          (let path = ''/'' @ js_join ''/'' [JStr (l_iwp l), JStr (encodeURIComponent w target)];
               q = set_prop ''oldid'' oldid (query req)
           in Inr (if q \<noteq> [] then path @ ''?'' @ qs_stringify w q else path)))"

definition redirectToOldid ::
  "world \<Rightarrow> config \<Rightarrow> request \<Rightarrow> locals \<Rightarrow> string \<Rightarrow> nat \<Rightarrow> env \<Rightarrow> unit promise" where
  "redirectToOldid w conf req l target t e =
     (case redirect_path w conf req l target (revision_revid (page_meta e)) of
        Inl err \<Rightarrow> doing t [no_cache] (rejected t err)
      | Inr path \<Rightarrow> doing t [no_cache, RelativeRedirect path] (resolved t ()))"

text \<open>
  \<open>substTopLevelTemplates(p)\<close>: the text is rewritten at once; the preprocessor is
  called (with \<open>onlypst\<close> set) when \<open>p\<close> is fulfilled, and its result replaces \<open>wt\<close>.
\<close>

definition substTopLevelTemplates ::
  "world \<Rightarrow> string \<Rightarrow> string \<Rightarrow> env promise \<Rightarrow> (env \<times> string) promise" where
  "substTopLevelTemplates w target wt p =
     (let wt' = rewrite_subst (tokenize w) wt in
      then_p
        (then_p p (\<lambda>t e. doing t [Call (CallPHPParse target wt' True)]
                     (then_p (started t (phpParse w target wt'))
                        (\<lambda>t' text. resolved t' (e, text)))))
        (\<lambda>t s. resolved t (fst s \<lparr> discardDataParsoid := True \<rparr>, snd s)))"

text \<open>
  \<open>wt2html(req, res, wt)\<close>: the events of the request. \<open>wt\<close> is \<open>None\<close> when the argument
  is not a string. \<open>TemplateRequest.setPageSrcInfo\<close> stores the fetched source and
  metadata in the environment before it resolves.
\<close>

definition wt2html ::
  "world \<Rightarrow> config \<Rightarrow> process \<Rightarrow> request \<Rightarrow> locals \<Rightarrow> env \<Rightarrow> string option \<Rightarrow> event list" where
  "wt2html w conf pr req l e0 wt =
     (let oldid = l_oldid l;
          target = resolveTitle w (page_name e0);
          fetching = (truthy oldid \<or> wt = None);
          p0 = (if fetching
                then then_p (started 0 (fetchPageSrcInfo w target oldid))
                       (\<lambda>t r. resolved t (e0 \<lparr> page_src := fst r, page_meta := snd r \<rparr>))
                else resolved 0 e0);
          p = (case wt of
                 Some s \<Rightarrow>
                   (let p1 = (if l_subst l then substTopLevelTemplates w target s p0
                              else then_p p0 (\<lambda>t e. resolved t (e, s)))
                    in then_p (timeout_p (REQ_TIMEOUT conf) (timeout_stack pr)
                                 (then_p p1 (parseWt w l)))
                         (sendRes w l))
               | None \<Rightarrow>
                   if truthy oldid
                   then then_p (timeout_p (REQ_TIMEOUT conf) (timeout_stack pr)
                                  (then_p p0 (parsePageWithOldid w conf req l)))
                          (sendRes w l)
                   else then_p p0 (redirectToOldid w conf req l target))
      in cors_header conf @
         (if fetching then [Call (CallSetPageSrcInfo target oldid)] else []) @
         events_of (supervised conf pr p l))"

text \<open>
  The invocations of the parse pipeline among the events of a request: the source text
  and the expansion set handed over.
\<close>

fun pipeline_call :: "event \<Rightarrow> (string \<times> expansions option) option" where
  "pipeline_call (Call (CallPipelineParse e s x)) = Some (s, x)"
| "pipeline_call ev = None"

definition parse_calls :: "event list \<Rightarrow> (string \<times> expansions option) list" where
  "parse_calls es = List.map_filter pipeline_call es"


section \<open>The configuration object (ParsoidConfig constructor)\<close>

text \<open>
  The constructor's freezing phase depends only on which properties the object has,
  in which order \<open>for (var prop in this)\<close> visits them, and whether a property is an
  accessor. The model keeps exactly that: the own enumerable property names in insertion
  order, the names of own accessor properties, the names whose values have been passed to
  \<open>JSUtils.deepFreeze\<close>, and the two flags set by \<open>Object.freeze\<close>. Property values are
  not modelled.
\<close>

record config_obj =
  own_keys :: "string list"
  accessor_keys :: "string list"
  deep_frozen :: "string list"
  nativeExtensions_frozen :: bool
  frozen :: bool

text \<open>
  The enumerable properties of \<open>ParsoidConfig.prototype\<close>, in the order the file assigns
  them (in \<open>a.x = a.y = f\<close> the inner assignment runs first).
\<close>

definition proto_keys :: "string list" where
  "proto_keys =
    [''debug'', ''traceFlags'', ''debugFlags'', ''dumpFlags'', ''fetchTemplates'',
     ''expandExtensions'', ''maxDepth'', ''usePHPPreProcessor'', ''defaultWiki'', ''useSelser'',
     ''fetchConfig'', ''rtTestMode'', ''version'', ''storeDataParsoid'',
     ''addHTMLTemplateParameters'', ''linting'', ''linterAPI'', ''loggerBackend'',
     ''tracerBackend'', ''strictSSL'', ''defaultAPIProxyURI'', ''modulesLoadURI'', ''loadWMF'',
     ''performanceTimer'', ''userAgent'', ''maxListeners'', ''maxFormSize'',
     ''logMwApiWarnings'', ''heapUsageSampleInterval'', ''getModulesLoadURI'', ''initMwApiMap'',
     ''setMwApi'', ''setInterwiki'', ''removeMwApi'', ''removeInterwiki'', ''_sanitizeIt'',
     ''sanitizeConfig'']"

definition ignoreFields :: "string list" where
  "ignoreFields = [''performanceTimer'', ''loggerBackend'', ''nativeExtensions'']"

text \<open>\<open>this.k = v\<close>: a new own property goes last; an existing one keeps its place.\<close>

definition assign :: "config_obj \<Rightarrow> string \<Rightarrow> config_obj" where
  "assign c k = (if k \<in> set (own_keys c) then c else c \<lparr> own_keys := own_keys c @ [k] \<rparr>)"

text \<open>
  What \<open>localSettings.setup(this)\<close> does to the object under construction: it extends it
  with properties, each a data property (\<open>False\<close>) or an accessor (\<open>True\<close>).
\<close>

definition define_prop :: "config_obj \<Rightarrow> string \<times> bool \<Rightarrow> config_obj" where
  "define_prop c p =
     (let c' = assign c (fst p)
      in if snd p \<and> fst p \<notin> set (accessor_keys c')
         then c' \<lparr> accessor_keys := fst p # accessor_keys c' \<rparr> else c')"

text \<open>\<open>for (var prop in this)\<close>: own properties first, then inherited ones not shadowed.\<close>

definition forin_keys :: "config_obj \<Rightarrow> string list" where
  "forin_keys c = own_keys c @ filter (\<lambda>k. k \<notin> set (own_keys c)) proto_keys"

text \<open>
  \<^verbatim>\<open>
  for (var prop in this) {
    var desc = Object.getOwnPropertyDescriptor(this, prop);
    if (ignoreFields[prop] === true || (!desc) || desc.get || desc.set) {
      // Ignore getters, primitives, and explicitly ignored fields.
      return;
    }
    this[prop] = JSUtils.deepFreeze(desc.value);
  }
  \<close>
  The second component tells whether the \<open>return\<close> was taken.
\<close>

fun freeze_loop :: "string list \<Rightarrow> config_obj \<Rightarrow> config_obj \<times> bool" where
  "freeze_loop [] c = (c, False)"
| "freeze_loop (p # ps) c =
     (if p \<in> set ignoreFields \<or> p \<notin> set (own_keys c) \<or> p \<in> set (accessor_keys c)
      then (c, True)
      else freeze_loop ps (c \<lparr> deep_frozen := p # deep_frozen c \<rparr>))"

text \<open>
  The constructor. \<open>setup\<close> is \<open>None\<close> when there is no \<open>localSettings.setup\<close>; \<open>options\<close> lists
  the own enumerable keys of the \<open>options\<close> argument (\<open>None\<close> when it is falsy); \<open>timer\<close> is the
  truthiness of \<open>this.useDefaultPerformanceTimer\<close>. \<open>initMwApiMap\<close> and \<open>_sanitizeIt\<close> only
  write to properties that already exist, so they leave the key order alone.
\<close>

definition ParsoidConfig ::
  "(string \<times> bool) list option \<Rightarrow> string list option \<Rightarrow> bool \<Rightarrow> config_obj" where
  "ParsoidConfig setup options timer =
    (let c0 = \<lparr> own_keys = [''mwApiMap'', ''reverseMwApiMap'', ''mwApiRegexp'', ''timeouts'', ''retries''],
                accessor_keys = [], deep_frozen = [],
                nativeExtensions_frozen = False, frozen = False \<rparr>;
         c1 = (case setup of None \<Rightarrow> c0 | Some ps \<Rightarrow> foldl define_prop c0 ps);
         c2 = (case options of None \<Rightarrow> c1 | Some ks \<Rightarrow> foldl assign c1 ks);
         c3 = assign c2 ''nativeExtensions'';
         c4 = assign c3 ''allowCORS'';
         c5 = (if timer then assign c4 ''performanceTimer'' else c4);
         r = freeze_loop (forin_keys c5) c5
     in if snd r then fst r
        else (fst r) \<lparr> nativeExtensions_frozen := True, frozen := True \<rparr>)"


section \<open>Example inputs\<close>

text \<open>
  Concrete inputs on which the results below are instantiated: the default timeouts of
  the configuration (4 and 5 minutes), a worker process and the cluster master, and the
  locals of a request for a page of \<open>enwiki\<close>.
\<close>

definition example_config :: config where
  "example_config =
     \<lparr> REQ_TIMEOUT = 240000, CPU_TIMEOUT = 300000, useSelser = True,
       allowCORS = Some ''*'', parsoidCacheURI = None,
       mwApiMap = [''enwiki'' \<mapsto> ''https://en.wikipedia.org/w/api.php''] \<rparr>"

definition worker_process :: process where
  "worker_process = \<lparr> isMaster = False, version = ''v0.10.25'',
                       timeout_stack = ''TimeoutError: operation timed out'' \<rparr>"

definition master_process :: process where
  "master_process = \<lparr> isMaster = True, version = ''v0.10.25'',
                       timeout_stack = ''TimeoutError: operation timed out'' \<rparr>"

definition example_locals :: "jsval \<Rightarrow> v2 option \<Rightarrow> locals" where
  "example_locals oldid v =
     \<lparr> l_timeoutId = JNum 7, l_iwp = ''enwiki'', l_pageName = JStr ''Main_Page'',
       l_oldid = oldid, l_body = False, l_subst = False, l_v2 = v \<rparr>"

definition example_env :: env where
  "example_env =
     \<lparr> page_name = ''Main_Page'', page_id = JUndefined, page_src = [], page_dom = None,
       page_meta = \<lparr> meta_title = ''Main_Page'', revision_revid = JUndefined,
                     revision_parentid = JUndefined \<rparr>,
       discardDataParsoid = False \<rparr>"

text \<open>
  External collaborators for the examples. The tokenizer knows one text; the serializer
  takes longer than the request timeout for selective serialization.
\<close>

definition example_world :: world where
  "example_world =
     \<lparr> tokenize = (\<lambda>s. if s = ''Hello {{Template}}''
                        then [StringTk ''Hello '', TagTk ''template'' (6, 18)] else []),
       resolveTitle = (\<lambda>n. n),
       extractExpansions = (\<lambda>d. \<lparr> transclusions = [(''Template:Foo'', ''<span>foo</span>'')],
                                   files = [(''File:A.png'', ''<img>'')] \<rparr>),
       serializeNode = (\<lambda>d b. doc_html d),
       extractDpAndSerialize = (\<lambda>d b. (doc_html d, ''application/json'', ''{}'')),
       encodeURIComponent = (\<lambda>s. s),
       qs_stringify = (\<lambda>q. join_strings ''&'' (map (\<lambda>kv. fst kv @ ''='' @ to_string (snd kv)) q)),
       url_host = (\<lambda>u. JStr ''en.wikipedia.org''),
       fetchPageSrcInfo = (\<lambda>t i. Settles 20 (Fulfilled (''Hello'',
                              \<lparr> meta_title = t, revision_revid = JNum 12345,
                                revision_parentid = JNum 12344 \<rparr>))),
       phpParse = (\<lambda>t s. Settles 30 (Fulfilled ''Hello world'')),
       pipelineParse = (\<lambda>e s x. Settles 100 (Fulfilled (Doc ''<p>Hello</p>'' None))),
       cacheRequest = (\<lambda>t c. Settles 10 (Fulfilled ''<p>cached</p>'')),
       serializeDOM = (\<lambda>e d b. if b then Settles 250000 (Fulfilled ''late'')
                                else Settles 50 (Fulfilled ''x'')) \<rparr>"


section \<open>Results: v2 middleware\<close>

lemma v2Middle_known_domain:
  assumes "reverseMwApiMap (rq_domain req) = Some iwp" and "iwp \<noteq> []"
  shows "snd (v2Middle reverseMwApiMap req l) =
    (if format (v2_of req) \<notin> set supportedFormats \<or>
        (rq_method req = ''GET'' \<and> format (v2_of req) \<notin> set wt2htmlFormats)
     then ErrOut ''Invalid format.'' 404
     else if truthy (js_or (rq_query_subst req) (b_subst (rq_body req))) \<and>
             format (v2_of req) \<noteq> ''html''
     then ErrOut ''Substitution is only supported for the HTML format.'' 501
     else Next)"
  using assms by (simp add: v2Middle_def Let_def errOut_def)

text \<open>
  C8, as stated, fails: a POST for format \<open>wt\<close> with \<open>subst\<close> set is rejected with
  status 501, which is not a 4xx code.
\<close>

theorem v2Middle_subst_status_counterexample:
  "\<not> (\<exists>msg code. snd (v2Middle [''en.wikipedia.org'' \<mapsto> ''enwiki'']
          \<lparr> rq_method = ''POST'', rq_domain = ''en.wikipedia.org'', rq_format = ''wt'',
            rq_title = Some ''Main_Page'', rq_revision = None,
            rq_query_body = JUndefined, rq_query_subst = JUndefined,
            rq_body = \<lparr> b_format = None, b_body = JUndefined, b_subst = JBool True,
                        b_wikitext = Absent, b_html = AsString ''<p>x</p>'',
                        b_original = None, b_previous = None, b_update = None \<rparr> \<rparr> (fresh_locals (JNum 1)))
        = ErrOut msg code \<and> 400 \<le> code \<and> code < 500)"
  by (simp add: v2Middle_def Let_def errOut_def v2_of_def js_or_def
        supportedFormats_def wt2htmlFormats_def)

text \<open>
  C8, amended. For a v2 request to a known domain with the \<open>subst\<close> flag set: when the
  format is \<open>html\<close> the middleware calls \<open>next()\<close>; otherwise it answers itself and never
  calls \<open>next()\<close>: with status 501 and the message
  "Substitution is only supported for the HTML format." when the format is \<open>pagebundle\<close>,
  or \<open>wt\<close> on a request that is not a GET, and with status 404 "Invalid format." for
  any other format.
\<close>

theorem v2Middle_subst_only_html:
  assumes "reverseMwApiMap (rq_domain req) = Some iwp" and "iwp \<noteq> []"
    and "truthy (js_or (rq_query_subst req) (b_subst (rq_body req)))"
  shows "snd (v2Middle reverseMwApiMap req l) =
    (if format (v2_of req) = ''html'' then Next
     else if format (v2_of req) = ''pagebundle'' \<or>
             (format (v2_of req) = ''wt'' \<and> rq_method req \<noteq> ''GET'')
     then ErrOut ''Substitution is only supported for the HTML format.'' 501
     else ErrOut ''Invalid format.'' 404)"
proof -
  have "snd (v2Middle reverseMwApiMap req l) =
    (if format (v2_of req) \<notin> set supportedFormats \<or>
        (rq_method req = ''GET'' \<and> format (v2_of req) \<notin> set wt2htmlFormats)
     then ErrOut ''Invalid format.'' 404
     else if format (v2_of req) \<noteq> ''html''
     then ErrOut ''Substitution is only supported for the HTML format.'' 501
     else Next)"
    using v2Middle_known_domain[of reverseMwApiMap req iwp l] assms by simp
  then show ?thesis
    by (auto simp: supportedFormats_def wt2htmlFormats_def)
qed

theorem v2Middle_subst_only_html_witness:
  "snd (v2Middle [''en.wikipedia.org'' \<mapsto> ''enwiki'']
          \<lparr> rq_method = ''POST'', rq_domain = ''en.wikipedia.org'', rq_format = ''pagebundle'',
            rq_title = Some ''Main_Page'', rq_revision = None,
            rq_query_body = JUndefined, rq_query_subst = JStr ''true'',
            rq_body = \<lparr> b_format = None, b_body = JUndefined, b_subst = JUndefined,
                        b_wikitext = AsString ''{{Template}}'', b_html = Absent,
                        b_original = None, b_previous = None, b_update = None \<rparr> \<rparr> (fresh_locals (JNum 1)))
     = ErrOut ''Substitution is only supported for the HTML format.'' 501
   \<and> snd (v2Middle [''en.wikipedia.org'' \<mapsto> ''enwiki'']
          \<lparr> rq_method = ''POST'', rq_domain = ''en.wikipedia.org'', rq_format = ''html'',
            rq_title = Some ''Main_Page'', rq_revision = None,
            rq_query_body = JUndefined, rq_query_subst = JStr ''true'',
            rq_body = \<lparr> b_format = None, b_body = JUndefined, b_subst = JUndefined,
                        b_wikitext = AsString ''{{Template}}'', b_html = Absent,
                        b_original = None, b_previous = None, b_update = None \<rparr> \<rparr> (fresh_locals (JNum 1)))
     = Next"
  using
    v2Middle_subst_only_html[of "[''en.wikipedia.org'' \<mapsto> ''enwiki'']"
      "\<lparr> rq_method = ''POST'', rq_domain = ''en.wikipedia.org'', rq_format = ''pagebundle'',
            rq_title = Some ''Main_Page'', rq_revision = None,
            rq_query_body = JUndefined, rq_query_subst = JStr ''true'',
            rq_body = \<lparr> b_format = None, b_body = JUndefined, b_subst = JUndefined,
                        b_wikitext = AsString ''{{Template}}'', b_html = Absent,
                        b_original = None, b_previous = None, b_update = None \<rparr> \<rparr>" "''enwiki''" "fresh_locals (JNum 1)"]
    v2Middle_subst_only_html[of "[''en.wikipedia.org'' \<mapsto> ''enwiki'']"
      "\<lparr> rq_method = ''POST'', rq_domain = ''en.wikipedia.org'', rq_format = ''html'',
            rq_title = Some ''Main_Page'', rq_revision = None,
            rq_query_body = JUndefined, rq_query_subst = JStr ''true'',
            rq_body = \<lparr> b_format = None, b_body = JUndefined, b_subst = JUndefined,
                        b_wikitext = AsString ''{{Template}}'', b_html = Absent,
                        b_original = None, b_previous = None, b_update = None \<rparr> \<rparr>" "''enwiki''" "fresh_locals (JNum 1)"]
  by (simp add: v2_of_def js_or_def fresh_locals_def)


lemma subst_loop_gen:
  assumes "sorted_wrt (\<lambda>a b. a + 2 \<le> b) (template_starts ts)"
    and "\<forall>s \<in> set (template_starts ts). base \<le> s \<and> take 2 (drop s wt) = ''{{''"
    and "length pre = base + incr"
    and "base \<le> length wt"
  shows "subst_loop ts incr (pre @ drop base wt)
         = pre @ insert_markers (template_starts ts) base (drop base wt)"
  using assms
proof (induction ts arbitrary: base incr pre)
  case Nil
  then show ?case by simp
next
  case (Cons t ts)
  show ?case
  proof (cases "is_template t")
    case False
    with Cons show ?thesis by simp
  next
    case True
    define s where "s = fst (tsr t)"
    from True Cons.prems(2) have bs: "base \<le> s" and br: "take 2 (drop s wt) = ''{{''"
      by (simp_all add: s_def)
    from br have "length (take 2 (drop s wt)) = 2" by simp
    then have slen: "s + 2 \<le> length wt" by simp
    let ?mid = "take (s - base) (drop base wt)"
    let ?pre' = "pre @ ?mid @ ''{{subst:''"
    have t1: "take (s + incr) (pre @ drop base wt) = pre @ ?mid"
      using Cons.prems(3) bs by simp
    have t2: "drop (s + incr + 2) (pre @ drop base wt) = drop (s + 2) wt"
      using Cons.prems(3) bs by (simp add: add.commute)
    have len': "length ?pre' = (s + 2) + (incr + 6)"
      using Cons.prems(3) bs slen by simp
    have rest: "\<forall>x \<in> set (template_starts ts). s + 2 \<le> x \<and> take 2 (drop x wt) = ''{{''"
      using Cons.prems(1,2) True by (auto simp: s_def)
    have srt: "sorted_wrt (\<lambda>a b. a + 2 \<le> b) (template_starts ts)"
      using Cons.prems(1) True by simp
    have IH: "subst_loop ts (incr + 6) (?pre' @ drop (s + 2) wt)
              = ?pre' @ insert_markers (template_starts ts) (s + 2) (drop (s + 2) wt)"
      using Cons.IH[OF srt rest len' slen] .
    have split: "take (s + 2 - base) (drop base wt) = ?mid @ ''{{''"
    proof -
      have "take (s + 2 - base) (drop base wt)
            = take (s - base) (drop base wt) @ take 2 (drop (s - base) (drop base wt))"
        using bs by (metis Nat.add_diff_assoc2 take_add)
      also have "drop (s - base) (drop base wt) = drop s wt" using bs by simp
      finally show ?thesis using br by simp
    qed
    have d2: "drop (s + 2 - base) (drop base wt) = drop (s + 2) wt" using bs by simp
    have "subst_loop (t # ts) incr (pre @ drop base wt)
          = subst_loop ts (incr + 6) (?pre' @ drop (s + 2) wt)"
      using True t1 t2 by (simp add: s_def)
    also note IH
    finally show ?thesis using True split d2 by (simp add: s_def)
  qed
qed


section \<open>Results: promises and timeouts\<close>

lemma map_snd_Pair [simp]: "map (snd \<circ> Pair t) es = es"
  by (induction es) simp_all

lemma started_simps [simp]:
  "evs (started t a) = []"
  "late (started t a) = []"
  "out (started t (Settles d r)) = Some (t + d, r)"
  "out (started t Hangs) = None"
  by (simp_all add: started_def)

lemma resolved_simps [simp]:
  "evs (resolved t v) = []"
  "late (resolved t v) = []"
  "out (resolved t v) = Some (t, Fulfilled v)"
  by (simp_all add: resolved_def)

lemma rejected_simps [simp]:
  "evs (rejected t e) = []"
  "late (rejected t e) = []"
  "out (rejected t e) = Some (t, Rejected e)"
  by (simp_all add: rejected_def)

lemma doing_simps [simp]:
  "evs (doing t es p) = map (Pair t) es @ evs p"
  "late (doing t es p) = late p"
  "out (doing t es p) = out p"
  by (simp_all add: doing_def)

lemma then_p_pending:
  "out p = None \<Longrightarrow> then_p p h = \<lparr> evs = evs p, late = late p, out = None \<rparr>"
  by (simp add: then_p_def)

lemma then_p_rejected:
  "out p = Some (t, Rejected e) \<Longrightarrow>
   then_p p h = \<lparr> evs = evs p, late = late p, out = Some (t, Rejected e) \<rparr>"
  by (simp add: then_p_def)

lemma then_p_fulfilled:
  "out p = Some (t, Fulfilled v) \<Longrightarrow>
   then_p p h = \<lparr> evs = evs p @ evs (h t v), late = late p @ late (h t v), out = out (h t v) \<rparr>"
  by (simp add: then_p_def Let_def)

lemma catch_p_pending:
  "out p = None \<Longrightarrow> catch_p p g = \<lparr> evs = evs p, late = late p, out = None \<rparr>"
  by (simp add: catch_p_def then2_p_def)

lemma catch_p_rejected:
  "out p = Some (t, Rejected e) \<Longrightarrow>
   catch_p p g = \<lparr> evs = evs p @ evs (g t e), late = late p @ late (g t e), out = out (g t e) \<rparr>"
  by (simp add: catch_p_def then2_p_def Let_def)

lemma catch_p_fulfilled:
  "out p = Some (t, Fulfilled v) \<Longrightarrow>
   catch_p p g = \<lparr> evs = evs p, late = late p, out = Some (t, Fulfilled v) \<rparr>"
  by (simp add: catch_p_def then2_p_def Let_def)

lemma timeout_p_in_time:
  "out p = Some (t, r) \<Longrightarrow> t \<le> ms \<Longrightarrow> timeout_p ms st p = p"
  by (simp add: timeout_p_def)

lemma timeout_p_expired:
  "out p = None \<or> (\<exists>t r. out p = Some (t, r) \<and> ms < t) \<Longrightarrow>
   timeout_p ms st p = expired ms st p"
  by (auto simp: timeout_p_def)

lemma cpuTimeout_worker:
  "worker pr \<Longrightarrow>
   cpuTimeout conf pr p l =
     p \<lparr> evs := (0, ProcessSend (start_message conf l)) # evs p @
               (case out p of
                  None \<Rightarrow> []
                | Some (t, r) \<Rightarrow> [(t, ProcessSend (makeDone (l_timeoutId l)))]) \<rparr>"
  by (simp add: cpuTimeout_def worker_def)

lemma cpuTimeout_master: "\<not> worker pr \<Longrightarrow> cpuTimeout conf pr p l = p"
  by (auto simp: cpuTimeout_def worker_def)

text \<open>
  The shape every supervised route has: an operation under the soft deadline, a handler
  that delivers its result, the CPU timeout around both, and \<open>timeoutResp\<close> as the
  catch handler. When the operation has not settled by the deadline, the delivering
  handler contributes nothing and the one error logged is the generic one.
\<close>

lemma soft_timeout_events:
  assumes "out p = None \<or> (\<exists>t r. out p = Some (t, r) \<and> ms < t)"
  shows "events_of (supervised conf pr (then_p (timeout_p ms st p) deliver) l) =
           (if worker pr then [ProcessSend (start_message conf l)] else []) @
           map snd (filter (\<lambda>e. fst e \<le> ms) (evs p)) @
           (if worker pr then [ProcessSend (makeDone (l_timeoutId l))] else []) @
           [LogFatal request_timed_out] @
           map snd (late p) @ map snd (filter (\<lambda>e. ms < fst e) (evs p))"
proof -
  let ?q = "then_p (timeout_p ms st p) deliver"
  have tp: "timeout_p ms st p = expired ms st p"
    using assms by (rule timeout_p_expired)
  have q: "?q = \<lparr> evs = filter (\<lambda>e. fst e \<le> ms) (evs p),
                   late = late p @ filter (\<lambda>e. ms < fst e) (evs p),
                   out = Some (ms, Rejected (bluebird_timeout st)) \<rparr>"
    unfolding tp by (simp add: then_p_rejected expired_def)
  have tr: "timeoutResp (bluebird_timeout st) = [LogFatal request_timed_out]"
    by (simp add: timeoutResp_def bluebird_timeout_def request_timed_out_def)
  show ?thesis
  proof (cases "worker pr")
    case True
    then show ?thesis
      unfolding supervised_def q
      by (simp add: cpuTimeout_worker catch_p_rejected events_of_def tr)
  next
    case False
    then show ?thesis
      unfolding supervised_def q
      by (simp add: cpuTimeout_master catch_p_rejected events_of_def tr)
  qed
qed

text \<open>
  C7. In a worker on a sufficient node version, \<open>cpuTimeout\<close> sends the start message
  \<open>{type: "timeout", timeout: CPU_TIMEOUT, timeoutId, location}\<close> first, at once, and when
  the operation settles, with a value or with an error, sends the done message
  \<open>{type: "timeout", done: true, timeoutId}\<close> with the same id, after everything the
  operation did; it sends nothing else and settles as the operation does. While the
  operation has not settled no done message is sent. On the cluster master or on an
  old node version the result is the operation's promise itself: no message is sent.
\<close>

theorem cpuTimeout_protocol:
  "(\<not> isMaster pr \<and> sufficientNodeVersion pr \<longrightarrow>
      (\<forall>t r. out p = Some (t, r) \<longrightarrow>
         evs (cpuTimeout conf pr p l) =
           [(0, ProcessSend \<lparr> m_type = ''timeout'', m_timeout = Some (CPU_TIMEOUT conf),
                              m_done = None, m_timeoutId = l_timeoutId l,
                              m_location = Some (location_of l) \<rparr>)] @
           evs p @
           [(t, ProcessSend \<lparr> m_type = ''timeout'', m_timeout = None, m_done = Some True,
                              m_timeoutId = l_timeoutId l, m_location = None \<rparr>)]) \<and>
      (out p = None \<longrightarrow>
         evs (cpuTimeout conf pr p l) =
           (0, ProcessSend \<lparr> m_type = ''timeout'', m_timeout = Some (CPU_TIMEOUT conf),
                             m_done = None, m_timeoutId = l_timeoutId l,
                             m_location = Some (location_of l) \<rparr>) # evs p) \<and>
      out (cpuTimeout conf pr p l) = out p \<and> late (cpuTimeout conf pr p l) = late p) \<and>
   (isMaster pr \<or> \<not> sufficientNodeVersion pr \<longrightarrow> cpuTimeout conf pr p l = p)"
  by (auto simp: cpuTimeout_def start_message_def makeDone_def)

theorem cpuTimeout_protocol_witness:
  "evs (cpuTimeout example_config worker_process (rejected 5 (type_error ''x'') :: unit promise)
          (example_locals (JStr ''12345'') None))
     = [(0, ProcessSend \<lparr> m_type = ''timeout'', m_timeout = Some 300000, m_done = None,
                          m_timeoutId = JNum 7,
                          m_location = Some ''[enwiki/Main_Page?oldid=12345]'' \<rparr>),
        (5, ProcessSend \<lparr> m_type = ''timeout'', m_timeout = None, m_done = Some True,
                          m_timeoutId = JNum 7, m_location = None \<rparr>)]
   \<and> cpuTimeout example_config master_process (resolved 5 ())
          (example_locals (JStr ''12345'') None) = resolved 5 ()"
  using
    cpuTimeout_protocol[of worker_process "rejected 5 (type_error ''x'') :: unit promise"
      example_config "example_locals (JStr ''12345'') None"]
    cpuTimeout_protocol[of master_process "resolved 5 () :: unit promise"
      example_config "example_locals (JStr ''12345'') None"]
  by (simp add: worker_process_def master_process_def sufficientNodeVersion_def
        example_config_def example_locals_def location_of_def)


lemma supervised_events:
  "events_of (supervised conf pr p l) =
     (if worker pr then [ProcessSend (start_message conf l)] else []) @
     map snd (evs p) @
     (case out p of
        None \<Rightarrow> []
      | Some (t, r) \<Rightarrow>
          (if worker pr then [ProcessSend (makeDone (l_timeoutId l))] else []) @
          (case r of Fulfilled v \<Rightarrow> [] | Rejected err \<Rightarrow> timeoutResp err)) @
     map snd (late p)"
proof (cases "out p")
  case None
  then show ?thesis
    unfolding supervised_def
    by (cases "worker pr")
       (simp_all add: cpuTimeout_worker cpuTimeout_master catch_p_pending events_of_def)
next
  case (Some tr)
  obtain t r where tr: "tr = (t, r)" by (cases tr)
  show ?thesis
  proof (cases r)
    case (Fulfilled v)
    then show ?thesis
      unfolding supervised_def using Some tr
      by (cases "worker pr")
         (simp_all add: cpuTimeout_worker cpuTimeout_master catch_p_fulfilled events_of_def)
  next
    case (Rejected err)
    then show ?thesis
      unfolding supervised_def using Some tr
      by (cases "worker pr")
         (simp_all add: cpuTimeout_worker cpuTimeout_master catch_p_rejected events_of_def)
  qed
qed


section \<open>Results: reuse of expansions\<close>

lemma parse_last_stage:
  assumes "out p = Some (t', Fulfilled (Some r))"
  shows "then_p p (\<lambda>t' r.
           let exps = (case r of None \<Rightarrow> None | Some r' \<Rightarrow> Some (r_expansions (reuse r')))
           in doing t' [Call (CallPipelineParse e src exps)]
                (started t' (pipelineParse w e src exps)))
         = \<lparr> evs = evs p @ [(t', Call (CallPipelineParse e src (Some (r_expansions (reuse r)))))],
             late = late p,
             out = out (started t' (pipelineParse w e src (Some (r_expansions (reuse r))))) \<rparr>"
  by (simp add: then_p_fulfilled[OF assms] Let_def)

lemma parse_of_revision:
  assumes "l_v2 l = Some v" and "prior_revision v = Some rv"
    and "rev_html rv = Some h" and "rev_data_parsoid rv = Some dp"
  shows "evs (parse w conf req l t e) =
           [(t, Call (CallPipelineParse e (page_src e)
                      (Some (r_expansions (reuse
                         \<lparr> r_expansions = extractExpansions w (applyDataParsoid (parseHTML h) dp),
                           r_mode = update_mode (update v) \<rparr>)))))]"
    and "late (parse w conf req l t e) = []"
proof -
  have r: "revision_ret w v rv = Inr \<lparr> r_expansions = extractExpansions w (applyDataParsoid (parseHTML h) dp),
                           r_mode = update_mode (update v) \<rparr>"
    using assms(3,4) by (simp add: revision_ret_def)
  have o: "out (resolved t (Some \<lparr> r_expansions = extractExpansions w (applyDataParsoid (parseHTML h) dp),
                           r_mode = update_mode (update v) \<rparr>))
           = Some (t, Fulfilled (Some \<lparr> r_expansions = extractExpansions w (applyDataParsoid (parseHTML h) dp),
                           r_mode = update_mode (update v) \<rparr>))"
    by simp
  have p: "parse w conf req l t e = then_p (resolved t (Some \<lparr> r_expansions = extractExpansions w (applyDataParsoid (parseHTML h) dp),
                           r_mode = update_mode (update v) \<rparr>)) (\<lambda>t' r.
           let exps = (case r of None \<Rightarrow> None | Some r' \<Rightarrow> Some (r_expansions (reuse r')))
           in doing t' [Call (CallPipelineParse e (page_src e) exps)]
                (started t' (pipelineParse w e (page_src e) exps)))"
    by (simp add: parse_def Let_def assms(1) assms(2) r)
  show "evs (parse w conf req l t e) =
           [(t, Call (CallPipelineParse e (page_src e)
                      (Some (r_expansions (reuse
                         \<lparr> r_expansions = extractExpansions w (applyDataParsoid (parseHTML h) dp),
                           r_mode = update_mode (update v) \<rparr>)))))]"
    unfolding p parse_last_stage[OF o] by simp
  show "late (parse w conf req l t e) = []"
    unfolding p parse_last_stage[OF o] by simp
qed

lemma parse_of_cache:
  assumes "case l_v2 l of None \<Rightarrow> True | Some v \<Rightarrow> prior_revision v = None"
    and "truthy (opt_str (parsoidCacheURI conf))" and "\<not> truthy (x_parsoid_request req)"
    and "x_parsoid req = XHeader cid md"
    and "cacheRequest w (meta_title (page_meta e)) (js_or cid (revision_parentid (page_meta e)))
           = Settles d (Fulfilled src)"
  shows "evs (parse w conf req l t e) =
           [(t, Call (CallParsoidCache (meta_title (page_meta e))
                            (js_or cid (revision_parentid (page_meta e))))),
            (t + d, Call (CallPipelineParse e (page_src e)
                      (Some (r_expansions (reuse
                         \<lparr> r_expansions = extractExpansions w (parseHTML src),
                           r_mode = (if truthy cid then md else JUndefined) \<rparr>)))))]"
    and "late (parse w conf req l t e) = []"
proof -
  let ?r = "\<lparr> r_expansions = extractExpansions w (parseHTML src),
             r_mode = (if truthy cid then md else JUndefined) \<rparr>"
  let ?c = "\<lparr> evs = [(t, Call (CallParsoidCache (meta_title (page_meta e))
                            (js_or cid (revision_parentid (page_meta e)))))],
             late = [], out = Some (t + d, Fulfilled (Some ?r)) \<rparr> :: ret option promise"
  have c: "cache_stage w conf req t e = ?c"
    using assms(2,3,4,5)
    by (simp add: cache_stage_def cache_ret_def Let_def then2_p_def doing_def started_def
          resolved_def)
  have o: "out ?c = Some (t + d, Fulfilled (Some ?r))" by simp
  have p: "parse w conf req l t e = then_p ?c (\<lambda>t' r.
           let exps = (case r of None \<Rightarrow> None | Some r' \<Rightarrow> Some (r_expansions (reuse r')))
           in doing t' [Call (CallPipelineParse e (page_src e) exps)]
                (started t' (pipelineParse w e (page_src e) exps)))"
  proof (cases "l_v2 l")
    case None
    then show ?thesis by (simp add: parse_def Let_def c)
  next
    case (Some v)
    with assms(1) have "prior_revision v = None" by simp
    with Some show ?thesis by (simp add: parse_def Let_def c)
  qed
  show "evs (parse w conf req l t e) =
           [(t, Call (CallParsoidCache (meta_title (page_meta e))
                            (js_or cid (revision_parentid (page_meta e))))),
            (t + d, Call (CallPipelineParse e (page_src e) (Some (r_expansions (reuse ?r)))))]"
    unfolding p parse_last_stage[OF o] by simp
  show "late (parse w conf req l t e) = []"
    unfolding p parse_last_stage[OF o] by simp
qed

lemma parse_calls_simps [simp]:
  "parse_calls [] = []"
  "parse_calls (Call (CallPipelineParse e s x) # es) = (s, x) # parse_calls es"
  "parse_calls (Call (CallParsoidCache a b) # es) = parse_calls es"
  "parse_calls (Call (CallSetPageSrcInfo a b) # es) = parse_calls es"
  "parse_calls (Call (CallPHPParse a c f) # es) = parse_calls es"
  "parse_calls (Call (CallSerializeDOM e d f) # es) = parse_calls es"
  "parse_calls (SetHeader n v # es) = parse_calls es"
  "parse_calls (EndResponse s # es) = parse_calls es"
  "parse_calls (JsonResponse pl # es) = parse_calls es"
  "parse_calls (RelativeRedirect s # es) = parse_calls es"
  "parse_calls (LogFatal err # es) = parse_calls es"
  "parse_calls (ProcessSend m # es) = parse_calls es"
  by (simp_all add: parse_calls_def)

lemma parse_calls_append: "parse_calls (xs @ ys) = parse_calls xs @ parse_calls ys"
  by (simp add: parse_calls_def List.map_filter_def)

text \<open>
  C3, as stated, fails when both kinds are signaled: \<open>some\<close> stops at \<open>templates\<close>, the
  mode is \<open>templates\<close>, and the files mapping of the prior payload is handed to the
  parse pipeline as it was.
\<close>

theorem parse_both_signaled_counterexample:
  "\<not> (\<forall>x \<in> set (parse_calls (events_of
          (parse example_world example_config
             \<lparr> query = [], cookie = JUndefined, x_parsoid_request = JUndefined,
               x_parsoid = XHeader JUndefined JUndefined \<rparr>
             (example_locals (JStr ''12345'')
                (Some \<lparr> format = ''html'', wikitext = Absent, html = Absent,
                        original = Some \<lparr> revid = JNum 12345, title = JStr ''Main_Page'',
                                          rev_wikitext = None, rev_html = Some ''<p>old</p>'',
                                          rev_data_parsoid = Some ''{}'' \<rparr>,
                        previous = None,
                        update = Some \<lparr> upd_templates = JBool True, upd_files = JBool True \<rparr> \<rparr>))
             0 example_env))).
        case snd x of None \<Rightarrow> False
        | Some xs \<Rightarrow> transclusions xs = [] \<and> files xs = [])"
proof -
  let ?v = "\<lparr> format = ''html'', wikitext = Absent, html = Absent,
                        original = Some \<lparr> revid = JNum 12345, title = JStr ''Main_Page'',
                                          rev_wikitext = None, rev_html = Some ''<p>old</p>'',
                                          rev_data_parsoid = Some ''{}'' \<rparr>,
                        previous = None,
                        update = Some \<lparr> upd_templates = JBool True, upd_files = JBool True \<rparr> \<rparr>"
  let ?rv = "\<lparr> revid = JNum 12345, title = JStr ''Main_Page'',
                                          rev_wikitext = None, rev_html = Some ''<p>old</p>'',
                                          rev_data_parsoid = Some ''{}'' \<rparr>"
  have a: "l_v2 (example_locals (JStr ''12345'') (Some ?v)) = Some ?v"
    by (simp add: example_locals_def)
  have b: "prior_revision ?v = Some ?rv" by (simp add: prior_revision_def)
  have c: "rev_html ?rv = Some ''<p>old</p>''" and d: "rev_data_parsoid ?rv = Some ''{}''"
    by simp_all
  note e = parse_of_revision[OF a b c d]
  show ?thesis
    unfolding events_of_def e
    by (simp add: reuse_def update_mode_def example_world_def)
qed

text \<open>
  C3, amended. When the expansions come from an explicit \<open>previous\<close> or \<open>original\<close>
  revision and \<open>update\<close> is given, exactly one kind is cleared before the parse
  pipeline is called: the transclusions when \<open>update.templates\<close> is signaled (whether or
  not \<open>update.files\<close> is signaled too), the files when only \<open>update.files\<close> is signaled;
  every other mapping is handed over as extracted.
\<close>

theorem parse_clears_first_signaled_kind:
  assumes "l_v2 l = Some v" and "prior_revision v = Some rv"
    and "rev_html rv = Some h" and "rev_data_parsoid rv = Some dp"
    and "update v = Some up"
  shows "parse_calls (events_of (parse w conf req l t e)) =
           [(page_src e,
             Some (if truthy (upd_templates up)
                   then (extractExpansions w (applyDataParsoid (parseHTML h) dp))
                          \<lparr> transclusions := [] \<rparr>
                   else if truthy (upd_files up)
                   then (extractExpansions w (applyDataParsoid (parseHTML h) dp))
                          \<lparr> files := [] \<rparr>
                   else extractExpansions w (applyDataParsoid (parseHTML h) dp)))]"
  unfolding events_of_def parse_of_revision[OF assms(1-4)]
  using assms(5) by (simp add: reuse_def update_mode_def)

theorem parse_clears_first_signaled_kind_witness:
  "parse_calls (events_of
     (parse example_world example_config
        \<lparr> query = [], cookie = JUndefined, x_parsoid_request = JUndefined,
          x_parsoid = XHeader JUndefined JUndefined \<rparr>
        (example_locals (JStr ''12345'')
           (Some \<lparr> format = ''html'', wikitext = Absent, html = Absent,
                   original = Some \<lparr> revid = JNum 12345, title = JStr ''Main_Page'',
                                     rev_wikitext = None, rev_html = Some ''<p>old</p>'',
                                     rev_data_parsoid = Some ''{}'' \<rparr>,
                   previous = None,
                   update = Some \<lparr> upd_templates = JBool False, upd_files = JBool True \<rparr> \<rparr>))
        0 example_env))
   = [([], Some \<lparr> transclusions = [(''Template:Foo'', ''<span>foo</span>'')], files = [] \<rparr>)]"
proof -
  let ?up = "\<lparr> upd_templates = JBool False, upd_files = JBool True \<rparr>"
  let ?rv = "\<lparr> revid = JNum 12345, title = JStr ''Main_Page'',
              rev_wikitext = None, rev_html = Some ''<p>old</p>'',
              rev_data_parsoid = Some ''{}'' \<rparr>"
  let ?v = "\<lparr> format = ''html'', wikitext = Absent, html = Absent,
             original = Some ?rv, previous = None, update = Some ?up \<rparr>"
  have a: "l_v2 (example_locals (JStr ''12345'') (Some ?v)) = Some ?v"
    by (simp add: example_locals_def)
  have b: "prior_revision ?v = Some ?rv" by (simp add: prior_revision_def)
  have c: "rev_html ?rv = Some ''<p>old</p>''" and d: "rev_data_parsoid ?rv = Some ''{}''"
    by simp_all
  have u: "update ?v = Some ?up" by simp
  show ?thesis
    unfolding parse_clears_first_signaled_kind[OF a b c d u]
    by (simp add: example_world_def example_env_def)
qed

text \<open>
  C4. When the caller indicates that templates were updated (\<open>update.templates\<close> on a
  request with an explicit prior revision, or the mode \<open>templates\<close> with a \<open>cacheID\<close> in
  the \<open>x-parsoid\<close> header of a request served from the rendering cache), the expansion
  set handed to the parse pipeline has an empty transclusions mapping and the files
  mapping exactly as extracted from the prior payload.
\<close>

theorem parse_templates_updated:
  "(l_v2 l = Some v \<and> prior_revision v = Some rv \<and> rev_html rv = Some h \<and>
    rev_data_parsoid rv = Some dp \<and> update v = Some up \<and> truthy (upd_templates up) \<longrightarrow>
      (\<exists>x. parse_calls (events_of (parse w conf req l t e)) = [(page_src e, Some x)] \<and>
           transclusions x = [] \<and>
           files x = files (extractExpansions w (applyDataParsoid (parseHTML h) dp))))
   \<and>
   ((case l_v2 l of None \<Rightarrow> True | Some v \<Rightarrow> prior_revision v = None) \<and>
    truthy (opt_str (parsoidCacheURI conf)) \<and> \<not> truthy (x_parsoid_request req) \<and>
    x_parsoid req = XHeader cid (JStr ''templates'') \<and> truthy cid \<and>
    cacheRequest w (meta_title (page_meta e)) cid = Settles d (Fulfilled src) \<longrightarrow>
      (\<exists>x. parse_calls (events_of (parse w conf req l t e)) = [(page_src e, Some x)] \<and>
           transclusions x = [] \<and>
           files x = files (extractExpansions w (parseHTML src))))"
proof (intro conjI impI)
  assume A: "l_v2 l = Some v \<and> prior_revision v = Some rv \<and> rev_html rv = Some h \<and>
    rev_data_parsoid rv = Some dp \<and> update v = Some up \<and> truthy (upd_templates up)"
  then have a: "l_v2 l = Some v" and b: "prior_revision v = Some rv"
    and c: "rev_html rv = Some h" and d: "rev_data_parsoid rv = Some dp"
    and u: "update v = Some up" and tt: "truthy (upd_templates up)"
    by simp_all
  show "\<exists>x. parse_calls (events_of (parse w conf req l t e)) = [(page_src e, Some x)] \<and>
           transclusions x = [] \<and>
           files x = files (extractExpansions w (applyDataParsoid (parseHTML h) dp))"
    unfolding events_of_def parse_of_revision[OF a b c d]
    using u tt by (simp add: reuse_def update_mode_def)
next
  assume B: "(case l_v2 l of None \<Rightarrow> True | Some v \<Rightarrow> prior_revision v = None) \<and>
    truthy (opt_str (parsoidCacheURI conf)) \<and> \<not> truthy (x_parsoid_request req) \<and>
    x_parsoid req = XHeader cid (JStr ''templates'') \<and> truthy cid \<and>
    cacheRequest w (meta_title (page_meta e)) cid = Settles d (Fulfilled src)"
  then have a: "case l_v2 l of None \<Rightarrow> True | Some v \<Rightarrow> prior_revision v = None"
    and b: "truthy (opt_str (parsoidCacheURI conf))" and c: "\<not> truthy (x_parsoid_request req)"
    and h: "x_parsoid req = XHeader cid (JStr ''templates'')" and tc: "truthy cid"
    and r: "cacheRequest w (meta_title (page_meta e)) cid = Settles d (Fulfilled src)"
    by simp_all
  from tc have j: "js_or cid (revision_parentid (page_meta e)) = cid"
    by (simp add: js_or_def)
  from r j have r': "cacheRequest w (meta_title (page_meta e))
                       (js_or cid (revision_parentid (page_meta e))) = Settles d (Fulfilled src)"
    by simp
  show "\<exists>x. parse_calls (events_of (parse w conf req l t e)) = [(page_src e, Some x)] \<and>
           transclusions x = [] \<and>
           files x = files (extractExpansions w (parseHTML src))"
    unfolding events_of_def parse_of_cache[OF a b c h r']
    using tc by (simp add: reuse_def)
qed

theorem parse_templates_updated_witness:
  "(\<exists>x. parse_calls (events_of
     (parse example_world example_config
        \<lparr> query = [], cookie = JUndefined, x_parsoid_request = JUndefined,
          x_parsoid = XHeader JUndefined JUndefined \<rparr>
        (example_locals (JStr ''12345'')
           (Some \<lparr> format = ''html'', wikitext = Absent, html = Absent,
                   original = Some \<lparr> revid = JNum 12345, title = JStr ''Main_Page'',
                                     rev_wikitext = None, rev_html = Some ''<p>old</p>'',
                                     rev_data_parsoid = Some ''{}'' \<rparr>,
                   previous = None,
                   update = Some \<lparr> upd_templates = JBool True, upd_files = JBool False \<rparr> \<rparr>))
        0 example_env)) = [([], Some x)] \<and>
      transclusions x = [] \<and> files x = [(''File:A.png'', ''<img>'')])
   \<and>
   (\<exists>x. parse_calls (events_of
     (parse example_world (example_config \<lparr> parsoidCacheURI := Some ''http://cache/'' \<rparr>)
        \<lparr> query = [], cookie = JUndefined, x_parsoid_request = JUndefined,
          x_parsoid = XHeader (JStr ''12000'') (JStr ''templates'') \<rparr>
        (example_locals (JStr ''12345'') None)
        0 example_env)) = [([], Some x)] \<and>
      transclusions x = [] \<and> files x = [(''File:A.png'', ''<img>'')])"
proof -
  let ?up = "\<lparr> upd_templates = JBool True, upd_files = JBool False \<rparr>"
  let ?rv = "\<lparr> revid = JNum 12345, title = JStr ''Main_Page'',
              rev_wikitext = None, rev_html = Some ''<p>old</p>'',
              rev_data_parsoid = Some ''{}'' \<rparr>"
  let ?v = "\<lparr> format = ''html'', wikitext = Absent, html = Absent,
             original = Some ?rv, previous = None, update = Some ?up \<rparr>"
  let ?req1 = "\<lparr> query = [], cookie = JUndefined, x_parsoid_request = JUndefined,
          x_parsoid = XHeader JUndefined JUndefined \<rparr>"
  let ?req2 = "\<lparr> query = [], cookie = JUndefined, x_parsoid_request = JUndefined,
          x_parsoid = XHeader (JStr ''12000'') (JStr ''templates'') \<rparr>"
  let ?conf2 = "example_config \<lparr> parsoidCacheURI := Some ''http://cache/'' \<rparr>"
  have h1: "l_v2 (example_locals (JStr ''12345'') (Some ?v)) = Some ?v \<and>
            prior_revision ?v = Some ?rv \<and> rev_html ?rv = Some ''<p>old</p>'' \<and>
            rev_data_parsoid ?rv = Some ''{}'' \<and> update ?v = Some ?up \<and>
            truthy (upd_templates ?up)"
    by (simp add: example_locals_def prior_revision_def)
  have h2: "(case l_v2 (example_locals (JStr ''12345'') None) of None \<Rightarrow> True
             | Some v \<Rightarrow> prior_revision v = None) \<and>
            truthy (opt_str (parsoidCacheURI ?conf2)) \<and> \<not> truthy (x_parsoid_request ?req2) \<and>
            x_parsoid ?req2 = XHeader (JStr ''12000'') (JStr ''templates'') \<and>
            truthy (JStr ''12000'') \<and>
            cacheRequest example_world (meta_title (page_meta example_env)) (JStr ''12000'')
              = Settles 10 (Fulfilled ''<p>cached</p>'')"
    by (simp add: example_locals_def example_world_def)
  note t1 = parse_templates_updated[where l = "example_locals (JStr ''12345'') (Some ?v)"
      and v = ?v and rv = ?rv and h = "''<p>old</p>''" and dp = "''{}''" and up = ?up
      and w = example_world and conf = example_config and req = ?req1 and t = 0
      and e = example_env, THEN conjunct1, rule_format, OF h1]
  note t2 = parse_templates_updated[where l = "example_locals (JStr ''12345'') None"
      and w = example_world and conf = ?conf2 and req = ?req2 and t = 0 and e = example_env
      and cid = "JStr ''12000''" and d = 10 and src = "''<p>cached</p>''",
      THEN conjunct2, rule_format, OF h2]
  from t1 have g1: "\<exists>x. parse_calls (events_of
     (parse example_world example_config ?req1
        (example_locals (JStr ''12345'') (Some ?v)) 0 example_env)) = [([], Some x)] \<and>
      transclusions x = [] \<and> files x = [(''File:A.png'', ''<img>'')]"
    by (simp add: example_world_def example_env_def)
  from t2 have g2: "\<exists>x. parse_calls (events_of
     (parse example_world ?conf2 ?req2
        (example_locals (JStr ''12345'') None) 0 example_env)) = [([], Some x)] \<and>
      transclusions x = [] \<and> files x = [(''File:A.png'', ''<img>'')]"
    by (simp add: example_world_def example_env_def)
  from g1 g2 show ?thesis by (intro conjI)
qed


section \<open>Results: serialization\<close>

lemma page_id_html2wt_env: "page_id (html2wt_env l e0) = l_oldid l"
  by (simp add: html2wt_env_def Let_def setPageSrcInfo_def split: option.splits)

lemma selser_flag_html2wt_env:
  "selser_flag conf (html2wt_env l e0)
     = (truthy (l_oldid l) \<and> l_oldid l \<noteq> JStr ''0'' \<and> useSelser conf)"
  by (simp add: selser_flag_def hasOldId_def page_id_html2wt_env)

text \<open>What a supervised operation under the soft deadline does when it settles in time.\<close>

lemma in_time_fulfilled_events:
  assumes "out p = Some (t, Fulfilled v)" and "t \<le> ms"
    and "out (deliver t v) = Some (t', Fulfilled u)"
  shows "events_of (supervised conf pr (then_p (timeout_p ms st p) deliver) l) =
           (if worker pr then [ProcessSend (start_message conf l)] else []) @
           map snd (evs p) @ map snd (evs (deliver t v)) @
           (if worker pr then [ProcessSend (makeDone (l_timeoutId l))] else []) @
           map snd (late p) @ map snd (late (deliver t v))"
proof -
  have q: "then_p (timeout_p ms st p) deliver =
             \<lparr> evs = evs p @ evs (deliver t v), late = late p @ late (deliver t v),
               out = Some (t', Fulfilled u) \<rparr>"
    using assms by (simp add: timeout_p_in_time then_p_fulfilled)
  show ?thesis
    unfolding supervised_def q
    by (cases "worker pr")
       (simp_all add: cpuTimeout_worker cpuTimeout_master catch_p_fulfilled events_of_def)
qed

lemma in_time_rejected_events:
  assumes "out p = Some (t, Rejected err)" and "t \<le> ms"
  shows "events_of (supervised conf pr (then_p (timeout_p ms st p) deliver) l) =
           (if worker pr then [ProcessSend (start_message conf l)] else []) @
           map snd (evs p) @
           (if worker pr then [ProcessSend (makeDone (l_timeoutId l))] else []) @
           timeoutResp err @ map snd (late p)"
proof -
  have q: "then_p (timeout_p ms st p) deliver =
             \<lparr> evs = evs p, late = late p, out = Some (t, Rejected err) \<rparr>"
    using assms by (simp add: timeout_p_in_time then_p_rejected)
  show ?thesis
    unfolding supervised_def q
    by (cases "worker pr")
       (simp_all add: cpuTimeout_worker cpuTimeout_master catch_p_rejected events_of_def)
qed

text \<open>The whole behaviour of \<open>html2wt\<close>, by what the serializer does.\<close>

lemma html2wt_events:
  "html2wt w conf pr l e0 h =
     (let e = html2wt_env l e0; d = html2wt_doc l h; sel = selser_flag conf e;
          a = serializeDOM w e d sel
      in cors_header conf @ [Call (CallSerializeDOM e d sel)] @
         (if worker pr then [ProcessSend (start_message conf l)] else []) @
         (case a of
            Hangs \<Rightarrow> []
          | Settles t r \<Rightarrow>
              if REQ_TIMEOUT conf < t then []
              else (case r of Fulfilled s \<Rightarrow> wikitext_response l s | Rejected err \<Rightarrow> [])) @
         (if worker pr then [ProcessSend (makeDone (l_timeoutId l))] else []) @
         (case a of
            Hangs \<Rightarrow> [LogFatal request_timed_out]
          | Settles t r \<Rightarrow>
              if REQ_TIMEOUT conf < t then [LogFatal request_timed_out]
              else (case r of Fulfilled s \<Rightarrow> [] | Rejected err \<Rightarrow> timeoutResp err)))"
proof -
  define e where "e = html2wt_env l e0"
  define d where "d = html2wt_doc l h"
  define sel where "sel = selser_flag conf e"
  define a where "a = serializeDOM w e d sel"
  define ms where "ms = REQ_TIMEOUT conf"
  define st where "st = timeout_stack pr"
  let ?run = "events_of (supervised conf pr (then_p (timeout_p ms st (started 0 a)) (send_wikitext l)) l)"
  have unf: "html2wt w conf pr l e0 h = cors_header conf @ [Call (CallSerializeDOM e d sel)] @ ?run"
    by (simp add: html2wt_def Let_def e_def d_def sel_def a_def ms_def st_def)
  have run: "?run =
         (if worker pr then [ProcessSend (start_message conf l)] else []) @
         (case a of
            Hangs \<Rightarrow> []
          | Settles t r \<Rightarrow>
              if ms < t then []
              else (case r of Fulfilled s \<Rightarrow> wikitext_response l s | Rejected err \<Rightarrow> [])) @
         (if worker pr then [ProcessSend (makeDone (l_timeoutId l))] else []) @
         (case a of
            Hangs \<Rightarrow> [LogFatal request_timed_out]
          | Settles t r \<Rightarrow>
              if ms < t then [LogFatal request_timed_out]
              else (case r of Fulfilled s \<Rightarrow> [] | Rejected err \<Rightarrow> timeoutResp err))"
  proof (cases a)
    case Hangs
    have "out (started 0 a) = None \<or> (\<exists>t r. out (started 0 a) = Some (t, r) \<and> ms < t)"
      using Hangs by simp
    from soft_timeout_events[OF this] show ?thesis using Hangs by simp
  next
    case (Settles t r)
    show ?thesis
    proof (cases "ms < t")
      case True
      have "out (started 0 a) = None \<or> (\<exists>t r. out (started 0 a) = Some (t, r) \<and> ms < t)"
        using Settles True by simp
      from soft_timeout_events[OF this] show ?thesis using Settles True by simp
    next
      case False
      then have le: "t \<le> ms" by simp
      show ?thesis
      proof (cases r)
        case (Fulfilled s)
        have o: "out (started 0 a) = Some (t, Fulfilled s)" using Settles Fulfilled by simp
        have o': "out (send_wikitext l t s) = Some (t, Fulfilled ())"
          by (simp add: send_wikitext_def)
        from in_time_fulfilled_events[where p = "started 0 a" and deliver = "send_wikitext l", OF o le o']
        show ?thesis
          using Settles Fulfilled False
          by (simp add: send_wikitext_def comp_def)
      next
        case (Rejected err)
        have o: "out (started 0 a) = Some (t, Rejected err)" using Settles Rejected by simp
        from in_time_rejected_events[where p = "started 0 a", OF o le] show ?thesis
          using Settles Rejected False by simp
      qed
    qed
  qed
  show ?thesis
    unfolding unf run Let_def
    unfolding e_def d_def sel_def a_def ms_def
    by (rule refl)
qed

lemma map_filter_append: "List.map_filter f (xs @ ys) = List.map_filter f xs @ List.map_filter f ys"
  by (simp add: List.map_filter_def)

lemma serializer_flag_cors [simp]: "List.map_filter serializer_flag (cors_header conf) = []"
  by (simp add: cors_header_def split: option.splits)

lemma serializer_flag_response [simp]:
  "List.map_filter serializer_flag (wikitext_response l s) = []"
  by (simp add: wikitext_response_def split: option.splits)

lemma serializer_flag_timeoutResp [simp]:
  "List.map_filter serializer_flag (timeoutResp err) = []"
  by (simp add: timeoutResp_def Let_def)

text \<open>
  C5. \<open>html2wt\<close> calls the serializer exactly once, and asks it for selective
  serialization exactly when the revision id (\<open>oldid\<close>) is truthy, is not the string
  \<open>'0'\<close>, and the configuration enables \<open>useSelser\<close>. With a missing or zero revision id
  the request runs exactly as it does under a configuration with \<open>useSelser\<close> off: full
  serialization, with the same events, so nothing fails on that account.
\<close>

theorem html2wt_selser_iff_oldid:
  "List.map_filter serializer_flag (html2wt w conf pr l e0 h)
     = [truthy (l_oldid l) \<and> l_oldid l \<noteq> JStr ''0'' \<and> useSelser conf]
   \<and> (\<not> (truthy (l_oldid l) \<and> l_oldid l \<noteq> JStr ''0'') \<longrightarrow>
        html2wt w conf pr l e0 h = html2wt w (conf \<lparr> useSelser := False \<rparr>) pr l e0 h)"
proof
  show "List.map_filter serializer_flag (html2wt w conf pr l e0 h)
     = [truthy (l_oldid l) \<and> l_oldid l \<noteq> JStr ''0'' \<and> useSelser conf]"
    unfolding html2wt_events Let_def
    by (simp add: map_filter_append selser_flag_html2wt_env
          split: async.splits settle.splits)
next
  show "\<not> (truthy (l_oldid l) \<and> l_oldid l \<noteq> JStr ''0'') \<longrightarrow>
        html2wt w conf pr l e0 h = html2wt w (conf \<lparr> useSelser := False \<rparr>) pr l e0 h"
  proof
    assume no: "\<not> (truthy (l_oldid l) \<and> l_oldid l \<noteq> JStr ''0'')"
    have s1: "selser_flag conf (html2wt_env l e0) = False"
      using no by (simp add: selser_flag_html2wt_env)
    have s2: "selser_flag (conf \<lparr> useSelser := False \<rparr>) (html2wt_env l e0) = False"
      by (simp add: selser_flag_html2wt_env)
    have c: "cors_header (conf \<lparr> useSelser := False \<rparr>) = cors_header conf"
      by (simp add: cors_header_def)
    have m: "start_message (conf \<lparr> useSelser := False \<rparr>) l = start_message conf l"
      by (simp add: start_message_def)
    have r: "REQ_TIMEOUT (conf \<lparr> useSelser := False \<rparr>) = REQ_TIMEOUT conf"
      by simp
    show "html2wt w conf pr l e0 h = html2wt w (conf \<lparr> useSelser := False \<rparr>) pr l e0 h"
      unfolding html2wt_events Let_def s1 s2 c m r by (rule refl)
  qed
qed

lemma example_locals_oldid: "l_oldid (example_locals x v) = x"
  by (simp add: example_locals_def)

lemma example_config_useSelser: "useSelser example_config"
  by (simp add: example_config_def)

theorem html2wt_selser_iff_oldid_witness:
  "List.map_filter serializer_flag
     (html2wt example_world example_config worker_process
        (example_locals (JStr ''12345'') None) example_env ''<p>x</p>'') = [True]
   \<and> List.map_filter serializer_flag
     (html2wt example_world example_config worker_process
        (example_locals (JStr ''0'') None) example_env ''<p>x</p>'') = [False]
   \<and> html2wt example_world example_config worker_process
        (example_locals JNull None) example_env ''<p>x</p>''
     = html2wt example_world (example_config \<lparr> useSelser := False \<rparr>) worker_process
        (example_locals JNull None) example_env ''<p>x</p>''"
proof -
  note a = html2wt_selser_iff_oldid[of example_world example_config worker_process
      "example_locals (JStr ''12345'') None" example_env "''<p>x</p>''"]
  note b = html2wt_selser_iff_oldid[of example_world example_config worker_process
      "example_locals (JStr ''0'') None" example_env "''<p>x</p>''"]
  note c = html2wt_selser_iff_oldid[of example_world example_config worker_process
      "example_locals JNull None" example_env "''<p>x</p>''"]
  from a[THEN conjunct1] have A: "List.map_filter serializer_flag
     (html2wt example_world example_config worker_process
        (example_locals (JStr ''12345'') None) example_env ''<p>x</p>'') = [True]"
    by (simp add: example_locals_oldid example_config_useSelser)
  from b[THEN conjunct1] have B: "List.map_filter serializer_flag
     (html2wt example_world example_config worker_process
        (example_locals (JStr ''0'') None) example_env ''<p>x</p>'') = [False]"
    by (simp add: example_locals_oldid)
  from c[THEN conjunct2] have C: "html2wt example_world example_config worker_process
        (example_locals JNull None) example_env ''<p>x</p>''
     = html2wt example_world (example_config \<lparr> useSelser := False \<rparr>) worker_process
        (example_locals JNull None) example_env ''<p>x</p>''"
    by (simp add: example_locals_oldid)
  from A B C show ?thesis by (intro conjI)
qed

text \<open>
  C6. When the serializer has not settled by \<open>REQ_TIMEOUT\<close>, the events of \<open>html2wt\<close> are:
  the CORS header, the call of the serializer, in a worker the start and done messages,
  and one fatal log entry whose error is a new \<open>Error\<close> with the message
  "Request timed out." and the stack \<open>null\<close>. The library's \<open>TimeoutError\<close> is not what
  is logged, and no response is sent with the serializer's output, whatever it
  turns out to be later. The same holds for every route of this shape
  (\<open>cpuTimeout(p.timeout(ms).then(deliver), res).catch(timeoutResp)\<close>): when \<open>p\<close> has not
  settled by \<open>ms\<close>, the handler \<open>deliver\<close> does not run, and the one error logged is that
  generic error.
\<close>

theorem html2wt_soft_timeout:
  "(overdue (REQ_TIMEOUT conf)
      (serializeDOM w (html2wt_env l e0) (html2wt_doc l h)
         (selser_flag conf (html2wt_env l e0))) \<longrightarrow>
    html2wt w conf pr l e0 h =
      cors_header conf @
      [Call (CallSerializeDOM (html2wt_env l e0) (html2wt_doc l h)
               (selser_flag conf (html2wt_env l e0)))] @
      (if \<not> isMaster pr \<and> sufficientNodeVersion pr
       then [ProcessSend (start_message conf l), ProcessSend (makeDone (l_timeoutId l))]
       else []) @
      [LogFatal \<lparr> cls = Error, message = ''Request timed out.'', stack = None \<rparr>])
   \<and>
   (\<forall>p deliver ms st.
      (out p = None \<or> (\<exists>t r. out p = Some (t, r) \<and> ms < t)) \<longrightarrow>
      events_of (supervised conf pr (then_p (timeout_p ms st p) deliver) l) =
        (if \<not> isMaster pr \<and> sufficientNodeVersion pr
         then [ProcessSend (start_message conf l)] else []) @
        map snd (filter (\<lambda>e. fst e \<le> ms) (evs p)) @
        (if \<not> isMaster pr \<and> sufficientNodeVersion pr
         then [ProcessSend (makeDone (l_timeoutId l))] else []) @
        [LogFatal \<lparr> cls = Error, message = ''Request timed out.'', stack = None \<rparr>] @
        map snd (late p) @ map snd (filter (\<lambda>e. ms < fst e) (evs p)))"
proof (intro conjI allI impI)
  assume "overdue (REQ_TIMEOUT conf)
      (serializeDOM w (html2wt_env l e0) (html2wt_doc l h)
         (selser_flag conf (html2wt_env l e0)))"
  then show "html2wt w conf pr l e0 h =
      cors_header conf @
      [Call (CallSerializeDOM (html2wt_env l e0) (html2wt_doc l h)
               (selser_flag conf (html2wt_env l e0)))] @
      (if \<not> isMaster pr \<and> sufficientNodeVersion pr
       then [ProcessSend (start_message conf l), ProcessSend (makeDone (l_timeoutId l))]
       else []) @
      [LogFatal \<lparr> cls = Error, message = ''Request timed out.'', stack = None \<rparr>]"
    unfolding html2wt_events Let_def
    by (auto simp: overdue_def worker_def request_timed_out_def split: async.splits)
next
  fix p :: "'a promise" and deliver :: "nat \<Rightarrow> 'a \<Rightarrow> unit promise" and ms st
  assume "out p = None \<or> (\<exists>t r. out p = Some (t, r) \<and> ms < t)"
  from soft_timeout_events[OF this, of conf pr st deliver l]
  show "events_of (supervised conf pr (then_p (timeout_p ms st p) deliver) l) =
        (if \<not> isMaster pr \<and> sufficientNodeVersion pr
         then [ProcessSend (start_message conf l)] else []) @
        map snd (filter (\<lambda>e. fst e \<le> ms) (evs p)) @
        (if \<not> isMaster pr \<and> sufficientNodeVersion pr
         then [ProcessSend (makeDone (l_timeoutId l))] else []) @
        [LogFatal \<lparr> cls = Error, message = ''Request timed out.'', stack = None \<rparr>] @
        map snd (late p) @ map snd (filter (\<lambda>e. ms < fst e) (evs p))"
    by (simp add: worker_def request_timed_out_def)
qed

theorem html2wt_soft_timeout_witness:
  "html2wt example_world example_config worker_process
     (example_locals (JStr ''12345'') None) example_env ''<p>x</p>''
   = [SetHeader ''Access-Control-Allow-Origin'' (JStr ''*''),
      Call (CallSerializeDOM (example_env \<lparr> page_id := JStr ''12345'' \<rparr>)
              (Doc ''<p>x</p>'' None) True),
      ProcessSend \<lparr> m_type = ''timeout'', m_timeout = Some 300000, m_done = None,
                    m_timeoutId = JNum 7,
                    m_location = Some ''[enwiki/Main_Page?oldid=12345]'' \<rparr>,
      ProcessSend \<lparr> m_type = ''timeout'', m_timeout = None, m_done = Some True,
                    m_timeoutId = JNum 7, m_location = None \<rparr>,
      LogFatal \<lparr> cls = Error, message = ''Request timed out.'', stack = None \<rparr>]"
proof -
  have env: "html2wt_env (example_locals (JStr ''12345'') None) example_env
               = example_env \<lparr> page_id := JStr ''12345'' \<rparr>"
    by (simp add: html2wt_env_def example_locals_def)
  have doc: "html2wt_doc (example_locals (JStr ''12345'') None) ''<p>x</p>'' = Doc ''<p>x</p>'' None"
    by (simp add: html2wt_doc_def example_locals_def parseHTML_def)
  have sel: "selser_flag example_config (example_env \<lparr> page_id := JStr ''12345'' \<rparr>) = True"
    by (simp add: selser_flag_def hasOldId_def example_config_def)
  have od: "overdue (REQ_TIMEOUT example_config)
             (serializeDOM example_world
                (html2wt_env (example_locals (JStr ''12345'') None) example_env)
                (html2wt_doc (example_locals (JStr ''12345'') None) ''<p>x</p>'')
                (selser_flag example_config
                   (html2wt_env (example_locals (JStr ''12345'') None) example_env)))"
    unfolding env doc sel by (simp add: overdue_def example_world_def example_config_def)
  show ?thesis
    using html2wt_soft_timeout[where pr = worker_process, THEN conjunct1, rule_format, OF od]
    unfolding env doc sel
    by (simp add: cors_header_def example_config_def worker_process_def
          sufficientNodeVersion_def start_message_def makeDone_def location_of_def
          example_locals_def)
qed


section \<open>Results: the redirect to the latest revision\<close>

lemma parse_calls_cors [simp]: "parse_calls (cors_header conf) = []"
  by (simp add: cors_header_def split: option.splits)

lemma parse_calls_timeoutResp [simp]: "parse_calls (timeoutResp err) = []"
  by (simp add: timeoutResp_def Let_def)

text \<open>
  The whole behaviour of \<open>wt2html\<close> on a request with neither a revision id nor
  wikitext, by what the fetch of the page information does.
\<close>

lemma wt2html_redirect_events:
  assumes "\<not> truthy (l_oldid l)"
  shows "wt2html w conf pr req l e0 None =
     cors_header conf @
     [Call (CallSetPageSrcInfo (resolveTitle w (page_name e0)) (l_oldid l))] @
     (if worker pr then [ProcessSend (start_message conf l)] else []) @
     (case fetchPageSrcInfo w (resolveTitle w (page_name e0)) (l_oldid l) of
        Hangs \<Rightarrow> []
      | Settles d r \<Rightarrow>
          (case r of
             Rejected err \<Rightarrow>
               (if worker pr then [ProcessSend (makeDone (l_timeoutId l))] else []) @
               timeoutResp err
           | Fulfilled pi \<Rightarrow>
               (case redirect_path w conf req l (resolveTitle w (page_name e0))
                       (revision_revid (snd pi)) of
                  Inl err \<Rightarrow>
                    [no_cache] @
                    (if worker pr then [ProcessSend (makeDone (l_timeoutId l))] else []) @
                    timeoutResp err
                | Inr path \<Rightarrow>
                    [no_cache, RelativeRedirect path] @
                    (if worker pr then [ProcessSend (makeDone (l_timeoutId l))] else []))))"
proof -
  define target where "target = resolveTitle w (page_name e0)"
  define a where "a = fetchPageSrcInfo w target (l_oldid l)"
  define p0 where "p0 = then_p (started 0 a)
                       (\<lambda>t r. resolved t (e0 \<lparr> page_src := fst r, page_meta := snd r \<rparr>))"
  define p where "p = then_p p0 (redirectToOldid w conf req l target)"
  have unf: "wt2html w conf pr req l e0 None =
               cors_header conf @ [Call (CallSetPageSrcInfo target (l_oldid l))] @
               events_of (supervised conf pr p l)"
    using assms by (simp add: wt2html_def Let_def p_def p0_def a_def target_def)
  have run: "events_of (supervised conf pr p l) =
     (if worker pr then [ProcessSend (start_message conf l)] else []) @
     (case a of
        Hangs \<Rightarrow> []
      | Settles d r \<Rightarrow>
          (case r of
             Rejected err \<Rightarrow>
               (if worker pr then [ProcessSend (makeDone (l_timeoutId l))] else []) @
               timeoutResp err
           | Fulfilled pi \<Rightarrow>
               (case redirect_path w conf req l target (revision_revid (snd pi)) of
                  Inl err \<Rightarrow>
                    [no_cache] @
                    (if worker pr then [ProcessSend (makeDone (l_timeoutId l))] else []) @
                    timeoutResp err
                | Inr path \<Rightarrow>
                    [no_cache, RelativeRedirect path] @
                    (if worker pr then [ProcessSend (makeDone (l_timeoutId l))] else []))))"
  proof (cases a)
    case Hangs
    then have "p = \<lparr> evs = [], late = [], out = None \<rparr>"
      by (simp add: p_def p0_def then_p_pending)
    then show ?thesis using Hangs by (simp add: supervised_events)
  next
    case (Settles d r)
    show ?thesis
    proof (cases r)
      case (Rejected err)
      then have "p = \<lparr> evs = [], late = [], out = Some (d, Rejected err) \<rparr>"
        using Settles by (simp add: p_def p0_def then_p_rejected)
      then show ?thesis using Settles Rejected by (simp add: supervised_events)
    next
      case (Fulfilled pi)
      let ?e = "e0 \<lparr> page_src := fst pi, page_meta := snd pi \<rparr>"
      have p0: "p0 = \<lparr> evs = [], late = [], out = Some (d, Fulfilled ?e) \<rparr>"
        using Settles Fulfilled by (simp add: p0_def then_p_fulfilled)
      have p': "p = \<lparr> evs = evs (redirectToOldid w conf req l target d ?e),
                      late = late (redirectToOldid w conf req l target d ?e),
                      out = out (redirectToOldid w conf req l target d ?e) \<rparr>"
        unfolding p_def by (simp add: p0 then_p_fulfilled)
      show ?thesis
      proof (cases "redirect_path w conf req l target (revision_revid (snd pi))")
        case (Inl err)
        then have "p = \<lparr> evs = [(d, no_cache)], late = [], out = Some (d, Rejected err) \<rparr>"
          unfolding p' by (simp add: redirectToOldid_def)
        then show ?thesis using Settles Fulfilled Inl by (simp add: supervised_events)
      next
        case (Inr path)
        then have "p = \<lparr> evs = [(d, no_cache), (d, RelativeRedirect path)], late = [],
                          out = Some (d, Fulfilled ()) \<rparr>"
          unfolding p' by (simp add: redirectToOldid_def)
        then show ?thesis using Settles Fulfilled Inr by (simp add: supervised_events)
      qed
    qed
  qed
  show ?thesis
    unfolding unf run
    unfolding a_def target_def
    by simp
qed

lemma set_prop_not_empty [simp]: "set_prop k v q \<noteq> []"
  by (cases q) simp_all

text \<open>
  C2. On a request with neither a revision id nor wikitext, \<open>wt2html\<close> never calls the
  parse pipeline, whatever the fetch of the page information does. When that fetch
  succeeds, the events of the request are: the CORS header, the fetch, in a worker the
  start message, the header \<open>Cache-Control: private,no-cache,s-maxage=0\<close>, the redirect,
  and in a worker the done message. For a v1 request the redirect goes to
  \<open>/prefix/title?query\<close> where the query is the request's with \<open>oldid\<close> set to the latest
  revision id; for a v2 request (whose prefix is in the API map) it goes to
  \<open>/v2/host/format/title/revid\<close>, followed by the request's query when it has one.
\<close>

theorem wt2html_redirects_to_latest_revision:
  assumes "\<not> truthy (l_oldid l)"
  shows "parse_calls (wt2html w conf pr req l e0 None) = [] \<and>
    (\<forall>d src meta.
       fetchPageSrcInfo w (resolveTitle w (page_name e0)) (l_oldid l)
         = Settles d (Fulfilled (src, meta)) \<longrightarrow>
       (l_v2 l = None \<longrightarrow>
          wt2html w conf pr req l e0 None =
            cors_header conf @
            [Call (CallSetPageSrcInfo (resolveTitle w (page_name e0)) (l_oldid l))] @
            (if \<not> isMaster pr \<and> sufficientNodeVersion pr
             then [ProcessSend (start_message conf l)] else []) @
            [SetHeader ''Cache-Control'' (JStr ''private,no-cache,s-maxage=0''),
             RelativeRedirect
               (''/'' @ l_iwp l @ ''/'' @ encodeURIComponent w (resolveTitle w (page_name e0)) @
                ''?'' @ qs_stringify w (set_prop ''oldid'' (revision_revid meta) (query req)))] @
            (if \<not> isMaster pr \<and> sufficientNodeVersion pr
             then [ProcessSend (makeDone (l_timeoutId l))] else [])) \<and>
       (\<forall>v uri. l_v2 l = Some v \<and> mwApiMap conf (l_iwp l) = Some uri \<longrightarrow>
          wt2html w conf pr req l e0 None =
            cors_header conf @
            [Call (CallSetPageSrcInfo (resolveTitle w (page_name e0)) (l_oldid l))] @
            (if \<not> isMaster pr \<and> sufficientNodeVersion pr
             then [ProcessSend (start_message conf l)] else []) @
            [SetHeader ''Cache-Control'' (JStr ''private,no-cache,s-maxage=0''),
             RelativeRedirect
               (''/v2/'' @ join_elem (url_host w uri) @ ''/'' @ format v @ ''/'' @
                encodeURIComponent w (resolveTitle w (page_name e0)) @ ''/'' @
                join_elem (revision_revid meta) @
                (if query req = [] then [] else ''?'' @ qs_stringify w (query req)))] @
            (if \<not> isMaster pr \<and> sufficientNodeVersion pr
             then [ProcessSend (makeDone (l_timeoutId l))] else [])))"
proof (intro conjI allI impI)
  show "parse_calls (wt2html w conf pr req l e0 None) = []"
    unfolding wt2html_redirect_events[OF assms]
    by (simp add: parse_calls_append no_cache_def split: async.splits settle.splits sum.splits)
next
  fix d src meta
  assume f: "fetchPageSrcInfo w (resolveTitle w (page_name e0)) (l_oldid l)
               = Settles d (Fulfilled (src, meta))"
  assume v1: "l_v2 l = None"
  have path: "redirect_path w conf req l (resolveTitle w (page_name e0)) (revision_revid meta)
        = Inr (''/'' @ l_iwp l @ ''/'' @ encodeURIComponent w (resolveTitle w (page_name e0)) @
                ''?'' @ qs_stringify w (set_prop ''oldid'' (revision_revid meta) (query req)))"
    using v1 by (simp add: redirect_path_def Let_def js_join_def)
  show "wt2html w conf pr req l e0 None =
            cors_header conf @
            [Call (CallSetPageSrcInfo (resolveTitle w (page_name e0)) (l_oldid l))] @
            (if \<not> isMaster pr \<and> sufficientNodeVersion pr
             then [ProcessSend (start_message conf l)] else []) @
            [SetHeader ''Cache-Control'' (JStr ''private,no-cache,s-maxage=0''),
             RelativeRedirect
               (''/'' @ l_iwp l @ ''/'' @ encodeURIComponent w (resolveTitle w (page_name e0)) @
                ''?'' @ qs_stringify w (set_prop ''oldid'' (revision_revid meta) (query req)))] @
            (if \<not> isMaster pr \<and> sufficientNodeVersion pr
             then [ProcessSend (makeDone (l_timeoutId l))] else [])"
    unfolding wt2html_redirect_events[OF assms] f
    by (simp add: path no_cache_def worker_def)
next
  fix d src meta v uri
  assume f: "fetchPageSrcInfo w (resolveTitle w (page_name e0)) (l_oldid l)
               = Settles d (Fulfilled (src, meta))"
  assume v2: "l_v2 l = Some v \<and> mwApiMap conf (l_iwp l) = Some uri"
  have path: "redirect_path w conf req l (resolveTitle w (page_name e0)) (revision_revid meta)
        = Inr (''/v2/'' @ join_elem (url_host w uri) @ ''/'' @ format v @ ''/'' @
                encodeURIComponent w (resolveTitle w (page_name e0)) @ ''/'' @
                join_elem (revision_revid meta) @
                (if query req = [] then [] else ''?'' @ qs_stringify w (query req)))"
    using v2 by (simp add: redirect_path_def Let_def js_join_def)
  show "wt2html w conf pr req l e0 None =
            cors_header conf @
            [Call (CallSetPageSrcInfo (resolveTitle w (page_name e0)) (l_oldid l))] @
            (if \<not> isMaster pr \<and> sufficientNodeVersion pr
             then [ProcessSend (start_message conf l)] else []) @
            [SetHeader ''Cache-Control'' (JStr ''private,no-cache,s-maxage=0''),
             RelativeRedirect
               (''/v2/'' @ join_elem (url_host w uri) @ ''/'' @ format v @ ''/'' @
                encodeURIComponent w (resolveTitle w (page_name e0)) @ ''/'' @
                join_elem (revision_revid meta) @
                (if query req = [] then [] else ''?'' @ qs_stringify w (query req)))] @
            (if \<not> isMaster pr \<and> sufficientNodeVersion pr
             then [ProcessSend (makeDone (l_timeoutId l))] else [])"
    unfolding wt2html_redirect_events[OF assms] f
    by (simp add: path no_cache_def worker_def)
qed

theorem wt2html_redirects_to_latest_revision_witness:
  "parse_calls (wt2html example_world example_config worker_process
      \<lparr> query = [(''body'', JStr ''1'')], cookie = JUndefined,
        x_parsoid_request = JUndefined, x_parsoid = XHeader JUndefined JUndefined \<rparr>
      (example_locals JNull None) example_env None) = []
   \<and> wt2html example_world example_config worker_process
      \<lparr> query = [(''body'', JStr ''1'')], cookie = JUndefined,
        x_parsoid_request = JUndefined, x_parsoid = XHeader JUndefined JUndefined \<rparr>
      (example_locals JNull None) example_env None
     = [SetHeader ''Access-Control-Allow-Origin'' (JStr ''*''),
        Call (CallSetPageSrcInfo ''Main_Page'' JNull),
        ProcessSend \<lparr> m_type = ''timeout'', m_timeout = Some 300000, m_done = None,
                      m_timeoutId = JNum 7, m_location = Some ''[enwiki/Main_Page]'' \<rparr>,
        SetHeader ''Cache-Control'' (JStr ''private,no-cache,s-maxage=0''),
        RelativeRedirect ''/enwiki/Main_Page?body=1&oldid=12345'',
        ProcessSend \<lparr> m_type = ''timeout'', m_timeout = None, m_done = Some True,
                      m_timeoutId = JNum 7, m_location = None \<rparr>]
   \<and> wt2html example_world example_config master_process
      \<lparr> query = [], cookie = JUndefined,
        x_parsoid_request = JUndefined, x_parsoid = XHeader JUndefined JUndefined \<rparr>
      (example_locals JNull
         (Some \<lparr> format = ''html'', wikitext = Absent, html = Absent, original = None,
                 previous = None, update = None \<rparr>)) example_env None
     = [SetHeader ''Access-Control-Allow-Origin'' (JStr ''*''),
        Call (CallSetPageSrcInfo ''Main_Page'' JNull),
        SetHeader ''Cache-Control'' (JStr ''private,no-cache,s-maxage=0''),
        RelativeRedirect ''/v2/en.wikipedia.org/html/Main_Page/12345'']"
proof -
  let ?req1 = "\<lparr> query = [(''body'', JStr ''1'')], cookie = JUndefined,
        x_parsoid_request = JUndefined, x_parsoid = XHeader JUndefined JUndefined \<rparr>"
  let ?req2 = "\<lparr> query = [], cookie = JUndefined,
        x_parsoid_request = JUndefined, x_parsoid = XHeader JUndefined JUndefined \<rparr>"
  let ?v = "\<lparr> format = ''html'', wikitext = Absent, html = Absent, original = None,
                 previous = None, update = None \<rparr>"
  let ?meta = "\<lparr> meta_title = ''Main_Page'', revision_revid = JNum 12345,
                 revision_parentid = JNum 12344 \<rparr>"
  have n1: "\<not> truthy (l_oldid (example_locals JNull None))"
    and n2: "\<not> truthy (l_oldid (example_locals JNull (Some ?v)))"
    by (simp_all add: example_locals_def)
  have f1: "fetchPageSrcInfo example_world (resolveTitle example_world (page_name example_env))
              (l_oldid (example_locals JNull None)) = Settles 20 (Fulfilled (''Hello'', ?meta))"
    and f2: "fetchPageSrcInfo example_world (resolveTitle example_world (page_name example_env))
              (l_oldid (example_locals JNull (Some ?v))) = Settles 20 (Fulfilled (''Hello'', ?meta))"
    by (simp_all add: example_world_def example_env_def)
  have b1: "l_v2 (example_locals JNull None) = None"
    by (simp add: example_locals_def)
  have b2: "l_v2 (example_locals JNull (Some ?v)) = Some ?v \<and>
            mwApiMap example_config (l_iwp (example_locals JNull (Some ?v)))
              = Some ''https://en.wikipedia.org/w/api.php''"
    by (simp add: example_locals_def example_config_def)
  have dec: "dec 12345 = ''12345''"
    by (simp add: dec.simps digit_char_def)
  note t1 = wt2html_redirects_to_latest_revision[OF n1, of example_world example_config
      worker_process ?req1 example_env]
  note t2 = wt2html_redirects_to_latest_revision[OF n2, of example_world example_config
      master_process ?req2 example_env]
  note r1 = t1[THEN conjunct2, rule_format, OF f1, THEN conjunct1, rule_format, OF b1]
  note r2 = t2[THEN conjunct2, rule_format, OF f2, THEN conjunct2, rule_format, OF b2]
  have g1: "wt2html example_world example_config worker_process ?req1
      (example_locals JNull None) example_env None
     = [SetHeader ''Access-Control-Allow-Origin'' (JStr ''*''),
        Call (CallSetPageSrcInfo ''Main_Page'' JNull),
        ProcessSend \<lparr> m_type = ''timeout'', m_timeout = Some 300000, m_done = None,
                      m_timeoutId = JNum 7, m_location = Some ''[enwiki/Main_Page]'' \<rparr>,
        SetHeader ''Cache-Control'' (JStr ''private,no-cache,s-maxage=0''),
        RelativeRedirect ''/enwiki/Main_Page?body=1&oldid=12345'',
        ProcessSend \<lparr> m_type = ''timeout'', m_timeout = None, m_done = Some True,
                      m_timeoutId = JNum 7, m_location = None \<rparr>]"
    unfolding r1
    by (simp add: cors_header_def example_config_def example_world_def example_env_def
          example_locals_def worker_process_def sufficientNodeVersion_def start_message_def
          makeDone_def location_of_def dec)
  have g2: "wt2html example_world example_config master_process ?req2
      (example_locals JNull (Some ?v)) example_env None
     = [SetHeader ''Access-Control-Allow-Origin'' (JStr ''*''),
        Call (CallSetPageSrcInfo ''Main_Page'' JNull),
        SetHeader ''Cache-Control'' (JStr ''private,no-cache,s-maxage=0''),
        RelativeRedirect ''/v2/en.wikipedia.org/html/Main_Page/12345'']"
    unfolding r2
    by (simp add: cors_header_def example_config_def example_world_def example_env_def
          example_locals_def master_process_def dec)
  from t1[THEN conjunct1] g1 g2 show ?thesis by (intro conjI)
qed


section \<open>Results: pre-substitution\<close>

lemma evs_then_p: "\<exists>r. evs (then_p p h) = evs p @ r"
proof (cases "out p")
  case None
  then show ?thesis by (simp add: then_p_pending)
next
  case (Some tr)
  obtain t r where "tr = (t, r)" by (cases tr)
  with Some show ?thesis
    by (cases r) (simp_all add: then_p_rejected then_p_fulfilled)
qed

lemma evs_timeout_p:
  assumes "evs p = (0, x) # r"
  shows "\<exists>r'. evs (timeout_p ms st p) = (0, x) # r'"
  using assms by (auto simp: timeout_p_def expired_def split: option.splits)

lemma evs_substTopLevelTemplates:
  "\<exists>r. evs (substTopLevelTemplates w target wt (resolved 0 e0))
        = (0, Call (CallPHPParse target (rewrite_subst (tokenize w) wt) True)) # r"
proof -
  let ?h1 = "\<lambda>t e. doing t [Call (CallPHPParse target (rewrite_subst (tokenize w) wt) True)]
                     (then_p (started t (phpParse w target (rewrite_subst (tokenize w) wt)))
                        (\<lambda>t' text. resolved t' (e, text)))"
  have "evs (then_p (resolved 0 e0) ?h1) = evs (?h1 0 e0)"
    by (simp add: then_p_fulfilled[of "resolved 0 e0" 0 e0])
  then obtain r1 where r1: "evs (then_p (resolved 0 e0) ?h1)
        = (0, Call (CallPHPParse target (rewrite_subst (tokenize w) wt) True)) # r1"
    by simp
  obtain r2 where "evs (then_p (then_p (resolved 0 e0) ?h1)
                     (\<lambda>t s. resolved t (fst s \<lparr> discardDataParsoid := True \<rparr>, snd s)))
                   = evs (then_p (resolved 0 e0) ?h1) @ r2"
    using evs_then_p by blast
  with r1 show ?thesis
    by (simp add: substTopLevelTemplates_def Let_def)
qed

lemma wt2html_subst_prefix:
  assumes "l_subst l" and "\<not> truthy (l_oldid l)"
  shows "\<exists>rest. wt2html w conf pr req l e0 (Some wt) =
           cors_header conf @
           (if worker pr then [ProcessSend (start_message conf l)] else []) @
           Call (CallPHPParse (resolveTitle w (page_name e0))
                   (rewrite_subst (tokenize w) wt) True) # rest"
proof -
  define target where "target = resolveTitle w (page_name e0)"
  define p1 where "p1 = substTopLevelTemplates w target wt (resolved 0 e0)"
  define p where "p = then_p (timeout_p (REQ_TIMEOUT conf) (timeout_stack pr)
                                 (then_p p1 (parseWt w l))) (sendRes w l)"
  let ?c = "(0 :: nat, Call (CallPHPParse target (rewrite_subst (tokenize w) wt) True))"
  have unf: "wt2html w conf pr req l e0 (Some wt) =
               cors_header conf @ events_of (supervised conf pr p l)"
    using assms by (simp add: wt2html_def Let_def p_def p1_def target_def)
  obtain r1 where r1: "evs p1 = ?c # r1"
    unfolding p1_def using evs_substTopLevelTemplates by blast
  obtain r2 where "evs (then_p p1 (parseWt w l)) = evs p1 @ r2"
    using evs_then_p by blast
  with r1 have "evs (then_p p1 (parseWt w l)) = ?c # (r1 @ r2)" by simp
  from evs_timeout_p[OF this] obtain r3 where
    r3: "evs (timeout_p (REQ_TIMEOUT conf) (timeout_stack pr) (then_p p1 (parseWt w l))) = ?c # r3"
    by blast
  obtain r4 where "evs p = evs (timeout_p (REQ_TIMEOUT conf) (timeout_stack pr)
                                 (then_p p1 (parseWt w l))) @ r4"
    unfolding p_def using evs_then_p by blast
  with r3 have ep: "evs p = ?c # (r3 @ r4)" by simp
  show ?thesis
    unfolding unf supervised_events ep
    by (simp add: target_def)
qed

lemma drop_past_two:
  assumes "length A = a" and "length M = m"
  shows "drop (a + m + k) (A @ M @ R) = drop k R"
  using assms by simp

lemma insert_markers_positions:
  assumes "sorted_wrt (\<lambda>a b. a + 2 \<le> b) ss"
    and "\<forall>s \<in> set ss. base \<le> s \<and> take 2 (drop (s - base) w) = ''{{''"
    and "i < length ss"
  shows "take 8 (drop (ss ! i - base + 6 * i) (insert_markers ss base w)) = ''{{subst:''"
  using assms
proof (induction ss arbitrary: base w i)
  case Nil
  then show ?case by simp
next
  case (Cons s ss)
  from Cons.prems(2) have bs: "base \<le> s" and br: "take 2 (drop (s - base) w) = ''{{''"
    by simp_all
  from br have "length (take 2 (drop (s - base) w)) = 2" by simp
  then have len: "s + 2 - base \<le> length w" by simp
  show ?case
  proof (cases i)
    case 0
    have "drop (s - base) (take (s + 2 - base) w) = take 2 (drop (s - base) w)"
      using bs by (simp add: drop_take)
    then show ?thesis using 0 bs len br by simp
  next
    case (Suc j)
    with Cons.prems(3) have j: "j < length ss" by simp
    then have mem: "ss ! j \<in> set ss" by simp
    with Cons.prems(1) have ge: "s + 2 \<le> ss ! j" by simp
    have srt: "sorted_wrt (\<lambda>a b. a + 2 \<le> b) ss" using Cons.prems(1) by simp
    have rest: "\<forall>x \<in> set ss. s + 2 \<le> x \<and>
                  take 2 (drop (x - (s + 2)) (drop (s + 2 - base) w)) = ''{{''"
    proof
      fix x assume x: "x \<in> set ss"
      with Cons.prems(1) have xs: "s + 2 \<le> x" by simp
      from x Cons.prems(2) have "take 2 (drop (x - base) w) = ''{{''" by simp
      moreover have "x - (s + 2) + (s + 2 - base) = x - base" using xs bs by simp
      ultimately show "s + 2 \<le> x \<and>
                  take 2 (drop (x - (s + 2)) (drop (s + 2 - base) w)) = ''{{''"
        using xs by simp
    qed
    have IH: "take 8 (drop (ss ! j - (s + 2) + 6 * j)
                (insert_markers ss (s + 2) (drop (s + 2 - base) w))) = ''{{subst:''"
      using Cons.IH[OF srt rest j] .
    have n: "ss ! j - base + 6 * Suc j = (s + 2 - base) + 6 + (ss ! j - (s + 2) + 6 * j)"
      using ge bs by simp
    have la: "length (take (s + 2 - base) w) = s + 2 - base"
      using len by simp
    have "drop (ss ! j - base + 6 * Suc j) (insert_markers (s # ss) base w)
          = drop (ss ! j - (s + 2) + 6 * j) (insert_markers ss (s + 2) (drop (s + 2 - base) w))"
      unfolding n insert_markers.simps
      by (rule drop_past_two[OF la]) simp
    then show ?thesis using Suc IH by simp
  qed
qed

text \<open>
  C1. When the tokenizer reports the top-level templates in source order, each range
  starting at an opening \<open>{{\<close> of the text and no two openings overlapping, the
  rewriter's output is the original text with \<open>subst:\<close> inserted immediately after each
  of those openings; every other code unit is kept, in order. In the output the
  \<open>i\<close>-th template (counting from 0) reads \<open>{{subst:\<close> at its original offset plus
  \<open>6 * i\<close>. On a request with the \<open>subst\<close> flag (and no revision id) the rewritten
  text is what \<open>wt2html\<close> sends to the preprocessor, as its first call to an external
  operation.
\<close>

theorem substTopLevelTemplates_inserts_markers:
  assumes "sorted_wrt (\<lambda>a b. a + 2 \<le> b) (template_starts (tokenize w wt))"
    and "\<forall>s \<in> set (template_starts (tokenize w wt)). take 2 (drop s wt) = ''{{''"
  shows "rewrite_subst (tokenize w) wt = insert_markers (template_starts (tokenize w wt)) 0 wt
    \<and> (\<forall>i < length (template_starts (tokenize w wt)).
          take 8 (drop (template_starts (tokenize w wt) ! i + 6 * i)
                    (rewrite_subst (tokenize w) wt)) = ''{{subst:'')
    \<and> (l_subst l \<and> \<not> truthy (l_oldid l) \<longrightarrow>
         (\<exists>rest. wt2html w conf pr req l e0 (Some wt) =
            cors_header conf @
            (if \<not> isMaster pr \<and> sufficientNodeVersion pr
             then [ProcessSend (start_message conf l)] else []) @
            Call (CallPHPParse (resolveTitle w (page_name e0))
                    (insert_markers (template_starts (tokenize w wt)) 0 wt) True) # rest))"
proof -
  have eq: "rewrite_subst (tokenize w) wt = insert_markers (template_starts (tokenize w wt)) 0 wt"
    using subst_loop_gen[of "tokenize w wt" 0 wt "[]" 0] assms
    by (simp add: rewrite_subst_def)
  have pos: "\<forall>i < length (template_starts (tokenize w wt)).
          take 8 (drop (template_starts (tokenize w wt) ! i + 6 * i)
                    (rewrite_subst (tokenize w) wt)) = ''{{subst:''"
  proof (intro allI impI)
    fix i assume i: "i < length (template_starts (tokenize w wt))"
    have h: "\<forall>s \<in> set (template_starts (tokenize w wt)).
               0 \<le> s \<and> take 2 (drop (s - 0) wt) = ''{{''"
      using assms(2) by simp
    from insert_markers_positions[OF assms(1) h i]
    show "take 8 (drop (template_starts (tokenize w wt) ! i + 6 * i)
                    (rewrite_subst (tokenize w) wt)) = ''{{subst:''"
      unfolding eq by simp
  qed
  have pre: "l_subst l \<and> \<not> truthy (l_oldid l) \<longrightarrow>
         (\<exists>rest. wt2html w conf pr req l e0 (Some wt) =
            cors_header conf @
            (if \<not> isMaster pr \<and> sufficientNodeVersion pr
             then [ProcessSend (start_message conf l)] else []) @
            Call (CallPHPParse (resolveTitle w (page_name e0))
                    (insert_markers (template_starts (tokenize w wt)) 0 wt) True) # rest)"
  proof
    assume "l_subst l \<and> \<not> truthy (l_oldid l)"
    then have a: "l_subst l" and b: "\<not> truthy (l_oldid l)" by simp_all
    from wt2html_subst_prefix[OF a b, of w conf pr req e0 wt]
    show "\<exists>rest. wt2html w conf pr req l e0 (Some wt) =
            cors_header conf @
            (if \<not> isMaster pr \<and> sufficientNodeVersion pr
             then [ProcessSend (start_message conf l)] else []) @
            Call (CallPHPParse (resolveTitle w (page_name e0))
                    (insert_markers (template_starts (tokenize w wt)) 0 wt) True) # rest"
      unfolding eq worker_def by simp
  qed
  from eq pos pre show ?thesis by (intro conjI)
qed

theorem substTopLevelTemplates_inserts_markers_witness:
  "rewrite_subst (tokenize example_world) ''Hello {{Template}}'' = ''Hello {{subst:Template}}''
   \<and> (\<exists>rest. wt2html example_world example_config worker_process
          \<lparr> query = [], cookie = JUndefined, x_parsoid_request = JUndefined,
            x_parsoid = XHeader JUndefined JUndefined \<rparr>
          ((example_locals JNull None) \<lparr> l_subst := True \<rparr>) example_env
          (Some ''Hello {{Template}}'')
        = [SetHeader ''Access-Control-Allow-Origin'' (JStr ''*''),
           ProcessSend \<lparr> m_type = ''timeout'', m_timeout = Some 300000, m_done = None,
                         m_timeoutId = JNum 7, m_location = Some ''[enwiki/Main_Page]'' \<rparr>,
           Call (CallPHPParse ''Main_Page'' ''Hello {{subst:Template}}'' True)] @ rest)"
proof -
  let ?wt = "''Hello {{Template}}''"
  let ?l = "(example_locals JNull None) \<lparr> l_subst := True \<rparr>"
  let ?req = "\<lparr> query = [], cookie = JUndefined, x_parsoid_request = JUndefined,
            x_parsoid = XHeader JUndefined JUndefined \<rparr>"
  have tk: "tokenize example_world ?wt = [StringTk ''Hello '', TagTk ''template'' (6, 18)]"
    by (simp add: example_world_def)
  have h1: "sorted_wrt (\<lambda>a b. a + 2 \<le> b) (template_starts (tokenize example_world ?wt))"
    unfolding tk by simp
  have h2: "\<forall>s \<in> set (template_starts (tokenize example_world ?wt)). take 2 (drop s ?wt) = ''{{''"
    unfolding tk by simp
  note t = substTopLevelTemplates_inserts_markers[OF h1 h2, of ?l example_config
      worker_process ?req example_env]
  have im: "insert_markers (template_starts (tokenize example_world ?wt)) 0 ?wt
              = ''Hello {{subst:Template}}''"
    unfolding tk by simp
  have fl: "l_subst ?l \<and> \<not> truthy (l_oldid ?l)"
    by (simp add: example_locals_def)
  from t[THEN conjunct1] have g1: "rewrite_subst (tokenize example_world) ?wt
      = ''Hello {{subst:Template}}''"
    unfolding im .
  from t[THEN conjunct2, THEN conjunct2, rule_format, OF fl]
  obtain rest where "wt2html example_world example_config worker_process ?req ?l example_env
          (Some ?wt)
        = cors_header example_config @
            (if \<not> isMaster worker_process \<and> sufficientNodeVersion worker_process
             then [ProcessSend (start_message example_config ?l)] else []) @
            Call (CallPHPParse (resolveTitle example_world (page_name example_env))
                    (insert_markers (template_starts (tokenize example_world ?wt)) 0 ?wt) True)
              # rest"
    by blast
  then have "wt2html example_world example_config worker_process ?req ?l example_env
          (Some ?wt)
        = [SetHeader ''Access-Control-Allow-Origin'' (JStr ''*''),
           ProcessSend \<lparr> m_type = ''timeout'', m_timeout = Some 300000, m_done = None,
                         m_timeoutId = JNum 7, m_location = Some ''[enwiki/Main_Page]'' \<rparr>,
           Call (CallPHPParse ''Main_Page'' ''Hello {{subst:Template}}'' True)] @ rest"
    unfolding im
    by (simp add: cors_header_def example_config_def worker_process_def
          sufficientNodeVersion_def start_message_def location_of_def example_locals_def
          example_world_def example_env_def)
  then have g2: "\<exists>rest. wt2html example_world example_config worker_process ?req ?l example_env
          (Some ?wt)
        = [SetHeader ''Access-Control-Allow-Origin'' (JStr ''*''),
           ProcessSend \<lparr> m_type = ''timeout'', m_timeout = Some 300000, m_done = None,
                         m_timeoutId = JNum 7, m_location = Some ''[enwiki/Main_Page]'' \<rparr>,
           Call (CallPHPParse ''Main_Page'' ''Hello {{subst:Template}}'' True)] @ rest"
    by blast
  from g1 g2 show ?thesis by (intro conjI)
qed


section \<open>Results: the configuration object\<close>

lemma assign_frozen [simp]: "frozen (assign c k) = frozen c"
  by (simp add: assign_def)

lemma define_prop_frozen [simp]: "frozen (define_prop c p) = frozen c"
  by (simp add: define_prop_def Let_def)

lemma foldl_assign_frozen [simp]: "frozen (foldl assign c ks) = frozen c"
  by (induction ks arbitrary: c) simp_all

lemma foldl_define_frozen [simp]: "frozen (foldl define_prop c ps) = frozen c"
  by (induction ps arbitrary: c) simp_all

lemma assign_own_keys: "set (own_keys (assign c k)) = insert k (set (own_keys c))"
  by (auto simp: assign_def)

lemma freeze_loop_frozen [simp]: "frozen (fst (freeze_loop ks c)) = frozen c"
  by (induction ks arbitrary: c) simp_all

lemma freeze_loop_returns:
  "k \<in> set ks \<Longrightarrow> k \<in> set ignoreFields \<Longrightarrow> snd (freeze_loop ks c)"
  by (induction ks arbitrary: c) auto

text \<open>
  C10 (the code's behaviour). \<open>nativeExtensions\<close> is always an own property and is one of
  the ignored fields, so the loop always reaches its \<open>return\<close>, which leaves the
  constructor: \<open>Object.freeze(this)\<close> is never executed, whatever the arguments.
\<close>

theorem ParsoidConfig_never_frozen:
  "frozen (ParsoidConfig setup options timer) = False
   \<and> nativeExtensions_frozen (ParsoidConfig None None False) = False
   \<and> deep_frozen (ParsoidConfig None None False)
       = [''retries'', ''timeouts'', ''mwApiRegexp'', ''reverseMwApiMap'', ''mwApiMap'']"
proof -
  have key: "snd (freeze_loop (forin_keys c) c)" if "''nativeExtensions'' \<in> set (own_keys c)" for c
  proof -
    from that have "''nativeExtensions'' \<in> set (forin_keys c)"
      by (simp add: forin_keys_def)
    then show ?thesis
      by (rule freeze_loop_returns) (simp add: ignoreFields_def)
  qed
  have A: "frozen (ParsoidConfig setup options timer) = False"
    unfolding ParsoidConfig_def Let_def
    by (simp add: key assign_own_keys split: option.splits)
  have B: "nativeExtensions_frozen (ParsoidConfig None None False) = False"
    by (simp add: ParsoidConfig_def Let_def assign_def forin_keys_def ignoreFields_def)
  have C: "deep_frozen (ParsoidConfig None None False)
       = [''retries'', ''timeouts'', ''mwApiRegexp'', ''reverseMwApiMap'', ''mwApiMap'']"
    by (simp add: ParsoidConfig_def Let_def assign_def forin_keys_def ignoreFields_def)
  from A B C show ?thesis by simp
qed


end
